theory Spec2Isabelle
  imports Main
begin

section \<open>Strings\<close>

text \<open>
  A JavaScript string is modelled as a \<^typ>\<open>string\<close>: one \<^typ>\<open>char\<close> per code unit,
  restricted to the code units below 256 (Latin-1).  Numbers that the program only
  uses as integers (ids, counters) are modelled as \<^typ>\<open>int\<close>; the loss of precision
  of a double beyond \<open>2^53\<close> is outside the model.
\<close>

text \<open>The white space and line terminators that \<open>String.prototype.trim\<close> removes and
  that \<open>\s\<close> matches: TAB, LF, VT, FF, CR, SP, NBSP.\<close>

definition is_space :: "char \<Rightarrow> bool" where
  "is_space c = (c \<in> set [CHR 0x09, CHR 0x0A, CHR 0x0B, CHR 0x0C, CHR 0x0D, CHR 0x20, CHR 0xA0])"

text \<open>The line terminators that \<open>.\<close> does not match.\<close>

definition is_line_terminator :: "char \<Rightarrow> bool" where
  "is_line_terminator c = (c \<in> set [CHR 0x0A, CHR 0x0D])"

definition dot :: "char \<Rightarrow> bool" where
  "dot c = (\<not> is_line_terminator c)"

definition is_digit :: "char \<Rightarrow> bool" where
  "is_digit c = (c \<in> set ''0123456789'')"

definition trim :: "string \<Rightarrow> string" where
  "trim s = rev (dropWhile is_space (rev (dropWhile is_space s)))"

text \<open>\<open>toLowerCase\<close> on one code unit: A-Z and the Latin-1 capitals (not the
  multiplication sign) move up by 32.\<close>

definition lower_char :: "char \<Rightarrow> char" where
  "lower_char c =
     (let n = (of_char c :: nat)
      in if (65 \<le> n \<and> n \<le> 90) \<or> (192 \<le> n \<and> n \<le> 222 \<and> n \<noteq> 215)
         then char_of (n + 32) else c)"

definition toLowerCase :: "string \<Rightarrow> string" where
  "toLowerCase s = map lower_char s"

text \<open>The canonical form used by a pattern with flag \<open>i\<close>: only A-Z and a-z are
  identified with an ASCII letter of a pattern.\<close>

definition ascii_lower :: "char \<Rightarrow> char" where
  "ascii_lower c =
     (let n = (of_char c :: nat)
      in if 65 \<le> n \<and> n \<le> 90 then char_of (n + 32) else c)"

text \<open>Decimal notation of a number, as in a template literal.\<close>

definition digit_char :: "nat \<Rightarrow> char" where
  "digit_char d = char_of (of_char (CHR ''0'') + d)"

fun decimal :: "nat \<Rightarrow> string" where
  "decimal n = (if 10 \<le> n then decimal (n div 10) @ [digit_char (n mod 10)] else [digit_char n])"

definition show_int :: "int \<Rightarrow> string" where
  "show_int i = (if 0 \<le> i then decimal (nat i) else CHR ''-'' # decimal (nat (- i)))"

text \<open>\<open>parseInt(s, 10)\<close> on the strings that \<open>\d+\<close> captures: the value of the
  leading digits.\<close>

definition digit_val :: "char \<Rightarrow> int" where
  "digit_val c = int (of_char c) - 48"

definition parseInt10 :: "string \<Rightarrow> int" where
  "parseInt10 s = foldl (\<lambda>a c. 10 * a + digit_val c) 0 (takeWhile is_digit s)"

section \<open>Patterns\<close>

text \<open>
  The regular expressions of \<open>COMMAND_PATTERNS\<close> use literal words, alternatives,
  capturing groups, an optional non-capturing group and greedy repetition of a
  character class.  A match is computed as the backtracking matcher does: the list of
  all ways to match a prefix, in the matcher's order of preference, each with the
  captures made and the text left over.
\<close>

datatype rx =
    Lit string
  | Plus "char \<Rightarrow> bool"
  | Star "char \<Rightarrow> bool"
  | Alt rx rx
  | Seq rx rx
  | Grp rx
  | Opt rx

primrec ngroups :: "rx \<Rightarrow> nat" where
  "ngroups (Lit w) = 0"
| "ngroups (Plus p) = 0"
| "ngroups (Star p) = 0"
| "ngroups (Alt a b) = ngroups a + ngroups b"
| "ngroups (Seq a b) = ngroups a + ngroups b"
| "ngroups (Grp a) = Suc (ngroups a)"
| "ngroups (Opt a) = ngroups a"

text \<open>Greedy repetition: what is left after taking as many characters of the class as
  possible, then one fewer, and so on down to none.\<close>

fun many :: "(char \<Rightarrow> bool) \<Rightarrow> string \<Rightarrow> string list" where
  "many p [] = [[]]"
| "many p (c # cs) = (if p c then many p cs @ [c # cs] else [c # cs])"

primrec matches :: "rx \<Rightarrow> string \<Rightarrow> (string option list \<times> string) list" where
  "matches (Lit w) s =
     (if length w \<le> length s \<and> map ascii_lower (take (length w) s) = map ascii_lower w
      then [([], drop (length w) s)] else [])"
| "matches (Plus p) s =
     (case s of [] \<Rightarrow> [] | c # cs \<Rightarrow> if p c then map (Pair []) (many p cs) else [])"
| "matches (Star p) s = map (Pair []) (many p s)"
| "matches (Alt a b) s =
     map (\<lambda>(g, r). (g @ replicate (ngroups b) None, r)) (matches a s) @
     map (\<lambda>(g, r). (replicate (ngroups a) None @ g, r)) (matches b s)"
| "matches (Seq a b) s =
     concat (map (\<lambda>(g1, r1). map (\<lambda>(g2, r2). (g1 @ g2, r2)) (matches b r1)) (matches a s))"
| "matches (Grp a) s =
     map (\<lambda>(g, r). (Some (take (length s - length r) s) # g, r)) (matches a s)"
| "matches (Opt a) s = matches a s @ [(replicate (ngroups a) None, s)]"

text \<open>\<open>input.match(/^...$/i)\<close>: the captures of the first way to match the whole
  input, \<open>None\<close> when there is none.\<close>

definition match_all :: "rx \<Rightarrow> string \<Rightarrow> string option list option" where
  "match_all r s =
     (case filter (\<lambda>(g, rest). rest = []) (matches r s) of
        [] \<Rightarrow> None
      | (g, rest) # more \<Rightarrow> Some g)"

fun alts :: "string list \<Rightarrow> rx" where
  "alts [] = Lit []"
| "alts [w] = Lit w"
| "alts (w # ws) = Alt (Lit w) (alts ws)"

fun seqs :: "rx list \<Rightarrow> rx" where
  "seqs [] = Lit []"
| "seqs [r] = r"
| "seqs (r # rs) = Seq r (seqs rs)"

definition COMMAND_PATTERNS :: "(string \<times> rx) list" where
  "COMMAND_PATTERNS =
   [(''ADD'', seqs [Grp (alts [''add'', ''create'', ''new'']), Plus is_space, Grp (Plus dot)]),
    (''COMPLETE'', seqs [Grp (alts [''complete'', ''done'', ''finish'', ''check'']),
        Plus is_space, Grp (Plus is_digit)]),
    (''INCOMPLETE'', seqs [Grp (alts [''incomplete'', ''notdone'', ''uncheck'', ''unfinish'']),
        Plus is_space, Grp (Plus is_digit)]),
    (''TOGGLE'', seqs [Grp (alts [''toggle'', ''switch'']), Plus is_space, Grp (Plus is_digit)]),
    (''DELETE'', seqs [Grp (alts [''delete'', ''remove'', ''del'', ''rm'']),
        Plus is_space, Grp (Plus is_digit)]),
    (''EDIT'', seqs [Grp (alts [''edit'', ''update'', ''change'']), Plus is_space,
        Grp (Plus is_digit), Plus is_space, Grp (Plus dot)]),
    (''LIST'', seqs [Grp (alts [''list'', ''show'', ''view'', ''ls'']),
        Opt (Seq (Plus is_space) (Grp (alts [''all'', ''active'', ''completed''])))]),
    (''CLEAR_COMPLETED'',
        Grp (alts [''clear'', ''clean'', ''clearcompleted'', ''clear-done'', ''clear_done''])),
    (''FILTER'', seqs [Grp (alts [''filter'', ''view'']), Plus is_space,
        Grp (alts [''all'', ''active'', ''completed''])]),
    (''HELP'', Grp (alts [''help'', ''?'', ''--help'', ''-h''])),
    (''EXIT'', Grp (alts [''exit'', ''quit'', ''q'', ''stop'', ''end'', ''bye''])),
    (''SEARCH'', seqs [Grp (alts [''search'', ''find'']), Plus is_space, Grp (Plus dot)]),
    (''STATS'', Grp (alts [''stats'', ''statistics'', ''count''])),
    (''SORT'', seqs [Grp (Lit ''sort''), Plus is_space,
        Grp (alts [''id'', ''title'', ''date'', ''status'']),
        Opt (Seq (Plus is_space) (Grp (alts [''asc'', ''desc''])))])]"

text \<open>The quoted form of a title, \<open>/^"(.*)"$/\<close>.\<close>

definition QUOTED :: rx where
  "QUOTED = seqs [Lit [CHR 0x22], Grp (Star dot), Lit [CHR 0x22]]"

section \<open>Commands\<close>

datatype error = Error string | TypeError string

datatype command_type =
    ADD_TODO | COMPLETE_TODO | INCOMPLETE_TODO | TOGGLE_TODO | DELETE_TODO | EDIT_TODO
  | LIST_TODOS | CLEAR_COMPLETED | FILTER_TODOS | HELP | EXIT | UNKNOWN

definition COMMAND_TYPES :: "(string \<times> command_type) list" where
  "COMMAND_TYPES =
   [(''ADD_TODO'', ADD_TODO), (''COMPLETE_TODO'', COMPLETE_TODO),
    (''INCOMPLETE_TODO'', INCOMPLETE_TODO), (''TOGGLE_TODO'', TOGGLE_TODO),
    (''DELETE_TODO'', DELETE_TODO), (''EDIT_TODO'', EDIT_TODO),
    (''LIST_TODOS'', LIST_TODOS), (''CLEAR_COMPLETED'', CLEAR_COMPLETED),
    (''FILTER_TODOS'', FILTER_TODOS), (''HELP'', HELP), (''EXIT'', EXIT),
    (''UNKNOWN'', UNKNOWN)]"

text \<open>The payload and meta objects of a command; a property that is not set is
  \<open>None\<close> (or \<open>False\<close> for the flags of meta, which are only ever set to true).\<close>

record payload =
  p_input :: "string option"
  p_title :: "string option"
  p_id :: "int option"
  p_filter :: "string option"
  p_searchTerm :: "string option"
  p_sortBy :: "string option"
  p_ascending :: "bool option"

record meta =
  m_error :: "string option"
  m_search :: bool
  m_stats :: bool
  m_sort :: bool

text \<open>\<open>cmd_type\<close> is \<open>None\<close> when the constructor was given \<open>undefined\<close>.\<close>

record command =
  cmd_type :: "command_type option"
  cmd_payload :: payload
  cmd_meta :: meta
  timestamp :: string

definition no_payload :: payload where
  "no_payload = \<lparr>p_input = None, p_title = None, p_id = None, p_filter = None,
     p_searchTerm = None, p_sortBy = None, p_ascending = None\<rparr>"

definition no_meta :: meta where
  "no_meta = \<lparr>m_error = None, m_search = False, m_stats = False, m_sort = False\<rparr>"

definition Command :: "command_type option \<Rightarrow> payload \<Rightarrow> meta \<Rightarrow> string \<Rightarrow> command" where
  "Command ty p m now = \<lparr>cmd_type = ty, cmd_payload = p, cmd_meta = m, timestamp = now\<rparr>"

definition COMMAND_ALIASES :: "(string \<times> string) list" where
  "COMMAND_ALIASES =
   [(''a'', ''ADD''), (''c'', ''COMPLETE''), (''i'', ''INCOMPLETE''), (''t'', ''TOGGLE''),
    (''d'', ''DELETE''), (''e'', ''EDIT''), (''l'', ''LIST''), (''cc'', ''CLEAR_COMPLETED''),
    (''f'', ''FILTER''), (''h'', ''HELP''), (''x'', ''EXIT''), (''s'', ''SEARCH''),
    (''st'', ''STATS'')]"

text \<open>\<open>args[k]\<close>: \<open>None\<close> for a group that took no part in the match and for an
  index past the end.\<close>

definition arg :: "string option list \<Rightarrow> nat \<Rightarrow> string option" where
  "arg args k = (if k < length args then args ! k else None)"

text \<open>The title of ADD, EDIT and SEARCH: trimmed, then without one pair of
  surrounding quotes.\<close>

definition stripQuotes :: "string \<Rightarrow> string" where
  "stripQuotes title =
     (case match_all QUOTED title of
        Some quotedMatch \<Rightarrow> (case arg quotedMatch 0 of Some inner \<Rightarrow> inner | None \<Rightarrow> title)
      | None \<Rightarrow> title)"

definition createCommandFromMatch ::
  "string \<Rightarrow> string \<Rightarrow> string option list \<Rightarrow> string \<Rightarrow> error + command" where
  "createCommandFromMatch now commandName args whole =
    (if commandName = ''ADD'' then
       (case arg args 1 of
          None \<Rightarrow> Inl (TypeError ''Cannot read properties of undefined (reading 'trim')'')
        | Some a \<Rightarrow>
            Inr (Command (Some ADD_TODO) (no_payload\<lparr>p_title := Some (stripQuotes (trim a))\<rparr>)
                   no_meta now))
     else if commandName = ''COMPLETE'' then
       Inr (Command (Some COMPLETE_TODO)
              (no_payload\<lparr>p_id := map_option parseInt10 (arg args 1)\<rparr>) no_meta now)
     else if commandName = ''INCOMPLETE'' then
       Inr (Command (Some INCOMPLETE_TODO)
              (no_payload\<lparr>p_id := map_option parseInt10 (arg args 1)\<rparr>) no_meta now)
     else if commandName = ''TOGGLE'' then
       Inr (Command (Some TOGGLE_TODO)
              (no_payload\<lparr>p_id := map_option parseInt10 (arg args 1)\<rparr>) no_meta now)
     else if commandName = ''DELETE'' then
       Inr (Command (Some DELETE_TODO)
              (no_payload\<lparr>p_id := map_option parseInt10 (arg args 1)\<rparr>) no_meta now)
     else if commandName = ''EDIT'' then
       (case arg args 2 of
          None \<Rightarrow> Inl (TypeError ''Cannot read properties of undefined (reading 'trim')'')
        | Some a \<Rightarrow>
            Inr (Command (Some EDIT_TODO)
                   (no_payload\<lparr>p_id := map_option parseInt10 (arg args 1),
                                p_title := Some (stripQuotes (trim a))\<rparr>)
                   no_meta now))
     else if commandName = ''LIST'' then
       (let filter = (case arg args 1 of None \<Rightarrow> ''all'' | Some f \<Rightarrow> if f = [] then ''all'' else f)
        in Inr (Command (Some LIST_TODOS) (no_payload\<lparr>p_filter := Some (toLowerCase filter)\<rparr>)
                  no_meta now))
     else if commandName = ''CLEAR_COMPLETED'' then
       Inr (Command (Some CLEAR_COMPLETED) no_payload no_meta now)
     else if commandName = ''FILTER'' then
       (case arg args 0 of
          None \<Rightarrow> Inl (TypeError ''Cannot read properties of undefined (reading 'toLowerCase')'')
        | Some a \<Rightarrow>
            Inr (Command (Some FILTER_TODOS) (no_payload\<lparr>p_filter := Some (toLowerCase a)\<rparr>)
                   no_meta now))
     else if commandName = ''HELP'' then
       Inr (Command (Some HELP) no_payload no_meta now)
     else if commandName = ''EXIT'' then
       Inr (Command (Some EXIT) no_payload no_meta now)
     else if commandName = ''SEARCH'' then
       (case arg args 1 of
          None \<Rightarrow> Inl (TypeError ''Cannot read properties of undefined (reading 'trim')'')
        | Some a \<Rightarrow>
            Inr (Command (Some LIST_TODOS)
                   (no_payload\<lparr>p_filter := Some ''all'',
                                p_searchTerm := Some (stripQuotes (trim a))\<rparr>)
                   (no_meta\<lparr>m_search := True\<rparr>) now))
     else if commandName = ''STATS'' then
       Inr (Command (Some LIST_TODOS) (no_payload\<lparr>p_filter := Some ''all''\<rparr>)
              (no_meta\<lparr>m_stats := True\<rparr>) now)
     else if commandName = ''SORT'' then
       (case arg args 0 of
          None \<Rightarrow> Inl (TypeError ''Cannot read properties of undefined (reading 'toLowerCase')'')
        | Some a \<Rightarrow>
            Inr (Command (Some LIST_TODOS)
                   (no_payload\<lparr>p_filter := Some ''all'',
                                p_sortBy := Some (toLowerCase a),
                                p_ascending := Some (arg args 1 \<noteq> Some ''desc'')\<rparr>)
                   (no_meta\<lparr>m_sort := True\<rparr>) now))
     else Inr (Command (Some UNKNOWN) (no_payload\<lparr>p_input := Some whole\<rparr>) no_meta now))"

text \<open>The loop over \<open>Object.entries(COMMAND_PATTERNS)\<close>: the first pattern that matches
  makes the command.\<close>

fun first_match :: "string \<Rightarrow> (string \<times> rx) list \<Rightarrow> string \<Rightarrow> error + command" where
  "first_match now [] trimmedInput =
     Inr (Command (Some UNKNOWN) (no_payload\<lparr>p_input := Some trimmedInput\<rparr>) no_meta now)"
| "first_match now ((commandName, pattern) # rest) trimmedInput =
     (case match_all pattern trimmedInput of
        Some args \<Rightarrow> createCommandFromMatch now commandName args trimmedInput
      | None \<Rightarrow> first_match now rest trimmedInput)"

text \<open>\<open>COMMAND_ALIASES[lowerInput]\<close> also finds the two properties that every object
  inherits under a lower-case name; their values are not names of command types.\<close>

definition alias_lookup :: "string \<Rightarrow> string option option" where
  "alias_lookup lowerInput =
     (case map_of COMMAND_ALIASES lowerInput of
        Some commandType \<Rightarrow> Some (Some commandType)
      | None \<Rightarrow> if lowerInput = ''constructor'' \<or> lowerInput = ''__proto__''
                then Some None else None)"

definition parseCommand :: "string \<Rightarrow> string \<Rightarrow> error + command" where
  "parseCommand now input =
     (if trim input = [] then
        Inr (Command (Some UNKNOWN) (no_payload\<lparr>p_input := Some input\<rparr>)
               (no_meta\<lparr>m_error := Some ''Empty input''\<rparr>) now)
      else
        let trimmedInput = trim input; lowerInput = toLowerCase trimmedInput
        in case alias_lookup lowerInput of
             Some commandType \<Rightarrow>
               Inr (Command (case commandType of None \<Rightarrow> None
                                | Some name \<Rightarrow> map_of COMMAND_TYPES name)
                      (no_payload\<lparr>p_input := Some trimmedInput\<rparr>) no_meta now)
           | None \<Rightarrow> first_match now COMMAND_PATTERNS trimmedInput)"

section \<open>Items\<close>

text \<open>
  The clock is read through \<open>new Date().toISOString()\<close>.  The model passes the time of
  an operation as \<open>now\<close>; every read within one operation sees the same instant.
\<close>

record todo =
  todo_id :: int
  title :: string
  completed :: bool
  createdAt :: string
  updatedAt :: string

text \<open>The constructor; \<open>createdAt || now\<close> also replaces the empty string.\<close>

definition or_now :: "string option \<Rightarrow> string \<Rightarrow> string" where
  "or_now v now = (case v of None \<Rightarrow> now | Some t \<Rightarrow> if t = [] then now else t)"

definition Todo :: "string \<Rightarrow> int \<Rightarrow> string \<Rightarrow> bool \<Rightarrow> string option \<Rightarrow> string option \<Rightarrow> todo" where
  "Todo now i t c created updated =
     \<lparr>todo_id = i, title = trim t, completed = c,
      createdAt = or_now created now, updatedAt = or_now updated now\<rparr>"

definition complete :: "string \<Rightarrow> todo \<Rightarrow> todo" where
  "complete now t = t\<lparr>completed := True, updatedAt := now\<rparr>"

definition uncomplete :: "string \<Rightarrow> todo \<Rightarrow> todo" where
  "uncomplete now t = t\<lparr>completed := False, updatedAt := now\<rparr>"

definition toggle :: "string \<Rightarrow> todo \<Rightarrow> todo" where
  "toggle now t = t\<lparr>completed := \<not> completed t, updatedAt := now\<rparr>"

definition updateTitle :: "string \<Rightarrow> todo \<Rightarrow> string \<Rightarrow> error + todo" where
  "updateTitle now t newTitle =
     (if newTitle = [] \<or> trim newTitle = [] then Inl (Error ''Todo title cannot be empty'')
      else Inr (t\<lparr>title := trim newTitle, updatedAt := now\<rparr>))"

section \<open>The state container\<close>

record appstate =
  todos :: "todo list"
  nextId :: int
  currentView :: string

definition AppState :: "todo list \<Rightarrow> int \<Rightarrow> string \<Rightarrow> appstate" where
  "AppState ts n v = \<lparr>todos = ts, nextId = n, currentView = v\<rparr>"

definition AppState_addTodo :: "appstate \<Rightarrow> todo \<Rightarrow> appstate" where
  "AppState_addTodo s t =
     (let s1 = s\<lparr>todos := todos s @ [t]\<rparr>
      in if todo_id t \<ge> nextId s1 then s1\<lparr>nextId := todo_id t + 1\<rparr> else s1)"

definition findTodoById :: "appstate \<Rightarrow> int \<Rightarrow> todo option" where
  "findTodoById s i = find (\<lambda>t. todo_id t = i) (todos s)"

fun findIndex :: "('a \<Rightarrow> bool) \<Rightarrow> 'a list \<Rightarrow> nat option" where
  "findIndex P [] = None"
| "findIndex P (x # xs) = (if P x then Some 0 else map_option Suc (findIndex P xs))"

definition updateTodo :: "appstate \<Rightarrow> todo \<Rightarrow> appstate \<times> bool" where
  "updateTodo s updatedTodo =
     (case findIndex (\<lambda>t. todo_id t = todo_id updatedTodo) (todos s) of
        Some index \<Rightarrow> (s\<lparr>todos := (todos s)[index := updatedTodo]\<rparr>, True)
      | None \<Rightarrow> (s, False))"

definition removeTodo :: "appstate \<Rightarrow> int \<Rightarrow> appstate \<times> bool" where
  "removeTodo s i =
     (let initialLength = length (todos s);
          s1 = s\<lparr>todos := filter (\<lambda>t. todo_id t \<noteq> i) (todos s)\<rparr>
      in (s1, length (todos s1) < initialLength))"

definition getFilteredTodos :: "appstate \<Rightarrow> todo list" where
  "getFilteredTodos s =
     (if currentView s = ''active'' then filter (\<lambda>t. \<not> completed t) (todos s)
      else if currentView s = ''completed'' then filter (\<lambda>t. completed t) (todos s)
      else todos s)"

definition VIEWS :: "string list" where
  "VIEWS = [''all'', ''active'', ''completed'']"

text \<open>A value interpolated into a message; \<open>None\<close> is \<open>undefined\<close>.\<close>

definition show_opt :: "string option \<Rightarrow> string" where
  "show_opt v = (case v of None \<Rightarrow> ''undefined'' | Some t \<Rightarrow> t)"

definition setCurrentView :: "appstate \<Rightarrow> string option \<Rightarrow> error + appstate" where
  "setCurrentView s view =
     (case view of
        Some v \<Rightarrow>
          if v \<in> set VIEWS then Inr (s\<lparr>currentView := v\<rparr>)
          else Inl (Error (''Invalid view: '' @ v @ ''. Must be 'all', 'active', or 'completed'' @ [CHR 0x27]))
      | None \<Rightarrow>
          Inl (Error (''Invalid view: undefined. Must be 'all', 'active', or 'completed'' @ [CHR 0x27])))"

section \<open>Validation\<close>

fun join :: "string \<Rightarrow> string list \<Rightarrow> string" where
  "join sep [] = []"
| "join sep [x] = x"
| "join sep (x # xs) = x @ sep @ join sep xs"

definition validateTodoInput :: "string option \<Rightarrow> string list" where
  "validateTodoInput ttl =
     (case ttl of
        None \<Rightarrow> [''Todo title is required'']
      | Some t \<Rightarrow>
          (if trim t = [] then [''Todo title cannot be empty''] else []) @
          (if length t > 255 then [''Todo title is too long (max 255 characters)''] else []))"

definition validateTodoId :: "int option \<Rightarrow> string list" where
  "validateTodoId i =
     (case i of
        None \<Rightarrow> [''Todo ID is required'']
      | Some n \<Rightarrow> if n < 1 then [''Todo ID must be a positive integer''] else [])"

section \<open>Persistence\<close>

text \<open>
  The save function of the dispatcher returns a value, or it throws (or rejects with) a
  value.  Any value can be thrown: \<open>undefined\<close>, \<open>null\<close>, or another value, given
  here with its \<open>message\<close> property when it has one.
\<close>

datatype thrown = ThrownUndefined | ThrownNull | ThrownOther "string option"

datatype save_outcome = Returns bool | Throws thrown

type_synonym save_function = "appstate \<Rightarrow> save_outcome"

text \<open>
  The save step of every handler with persistence:
  \<^verbatim>\<open>let saveSuccess = false;
  if (saveFunction) {
    try { saveSuccess = await saveFunction(appState); }
    catch (saveError) { console.warn('...', saveError.message); }
  }\<close>
  Without a save function (\<open>null\<close>) nothing is saved.  The handler for the error
  reads \<open>saveError.message\<close>; on \<open>undefined\<close> and on \<open>null\<close> this read throws a
  \<open>TypeError\<close>, which leaves the handler.  The step gives the value of \<open>saveSuccess\<close>
  or that error.
\<close>

definition try_save :: "save_function option \<Rightarrow> appstate \<Rightarrow> error + bool" where
  "try_save saveFunction s =
     (case saveFunction of
        None \<Rightarrow> Inr False
      | Some f \<Rightarrow>
          (case f s of
             Returns saved \<Rightarrow> Inr saved
           | Throws saveError \<Rightarrow>
               (case saveError of
                  ThrownUndefined \<Rightarrow>
                    Inl (TypeError ''Cannot read properties of undefined (reading 'message')'')
                | ThrownNull \<Rightarrow>
                    Inl (TypeError ''Cannot read properties of null (reading 'message')'')
                | ThrownOther m \<Rightarrow> Inr False)))"

section \<open>Operation handlers\<close>

text \<open>
  A handler takes the state and returns the state it leaves behind, with the object it
  returns or the error it throws.  \<open>saveSuccess\<close> is \<open>None\<close> in the results of the
  handlers without persistence, which have no such property.  An error thrown in the
  save step leaves the handler after the state has been changed.

  \<open>findTodoById\<close> returns the element of the array itself, so a method called on it
  changes the array at the position where it was found.
\<close>

record stats =
  total :: nat
  active :: nat
  completed_count :: nat

datatype op_result =
    AddResult (res_todo: todo) (res_nextId: int) (todosCount: nat) (saveSuccess: "bool option")
  | TodoResult (res_todo: todo) (message: string) (saveSuccess: "bool option")
  | EditResult (res_todo: todo) (oldTitle: string) (message: string) (saveSuccess: "bool option")
  | ClearResult (clearedTodos: "todo list") (res_count: nat) (message: string)
      (saveSuccess: "bool option")
  | ListResult (res_todos: "todo list") (res_stats: "stats option") (res_filter: "string option")
      (res_count: nat)
  | FilterResult (res_todos: "todo list") (res_filter: "string option") (message: string)
  | HelpResult (message: string)
  | ExitResult (res_exit: bool) (message: string)
  | UnknownResult (message: string) (res_help: string)

definition error_message :: "error \<Rightarrow> string" where
  "error_message e = (case e of Error m \<Rightarrow> m | TypeError m \<Rightarrow> m)"

definition quoted :: "string \<Rightarrow> string" where
  "quoted t = [CHR 0x22] @ t @ [CHR 0x22]"

definition not_found :: "int \<Rightarrow> error" where
  "not_found i = Error (''Todo with ID '' @ show_int i @ '' not found'')"

definition addTodo :: "string \<Rightarrow> appstate \<Rightarrow> string option \<Rightarrow> appstate \<times> (error + op_result)" where
  "addTodo now s ttl =
     (case ttl of
        None \<Rightarrow> (s, Inl (Error (join ''; '' (validateTodoInput None))))
      | Some t \<Rightarrow>
          if validateTodoInput (Some t) \<noteq> [] then
            (s, Inl (Error (join ''; '' (validateTodoInput (Some t)))))
          else
            let newTodo = Todo now (nextId s) (trim t) False None None;
                s1 = AppState_addTodo s newTodo
            in (s1, Inr (AddResult newTodo (nextId s1) (length (todos s1)) None)))"

definition addTodoWithPersistence ::
  "save_function option \<Rightarrow> string \<Rightarrow> appstate \<Rightarrow> string option \<Rightarrow> appstate \<times> (error + op_result)" where
  "addTodoWithPersistence saveFunction now s ttl =
     (case ttl of
        None \<Rightarrow> (s, Inl (Error (join ''; '' (validateTodoInput None))))
      | Some t \<Rightarrow>
          if validateTodoInput (Some t) \<noteq> [] then
            (s, Inl (Error (join ''; '' (validateTodoInput (Some t)))))
          else
            let newTodo = Todo now (nextId s) (trim t) False None None;
                s1 = AppState_addTodo s newTodo
            in (case try_save saveFunction s1 of
                  Inl e \<Rightarrow> (s1, Inl e)
                | Inr saved \<Rightarrow>
                    (s1, Inr (AddResult newTodo (nextId s1) (length (todos s1))
                                (Some saved)))))"

definition completeTodo :: "string \<Rightarrow> appstate \<Rightarrow> int option \<Rightarrow> appstate \<times> (error + op_result)" where
  "completeTodo now s i =
     (case i of
        None \<Rightarrow> (s, Inl (Error (join ''; '' (validateTodoId None))))
      | Some n \<Rightarrow>
          if validateTodoId (Some n) \<noteq> [] then
            (s, Inl (Error (join ''; '' (validateTodoId (Some n)))))
          else
            (case findIndex (\<lambda>t. todo_id t = n) (todos s) of
               None \<Rightarrow> (s, Inl (not_found n))
             | Some k \<Rightarrow>
                 let t = complete now (todos s ! k);
                     s1 = s\<lparr>todos := (todos s)[k := t]\<rparr>;
                     s2 = fst (updateTodo s1 t)
                 in (s2, Inr (TodoResult t (''Todo '' @ quoted (title t) @ '' marked as complete'')
                                None))))"

definition incompleteTodo :: "string \<Rightarrow> appstate \<Rightarrow> int option \<Rightarrow> appstate \<times> (error + op_result)" where
  "incompleteTodo now s i =
     (case i of
        None \<Rightarrow> (s, Inl (Error (join ''; '' (validateTodoId None))))
      | Some n \<Rightarrow>
          if validateTodoId (Some n) \<noteq> [] then
            (s, Inl (Error (join ''; '' (validateTodoId (Some n)))))
          else
            (case findIndex (\<lambda>t. todo_id t = n) (todos s) of
               None \<Rightarrow> (s, Inl (not_found n))
             | Some k \<Rightarrow>
                 let t = uncomplete now (todos s ! k);
                     s1 = s\<lparr>todos := (todos s)[k := t]\<rparr>;
                     s2 = fst (updateTodo s1 t)
                 in (s2, Inr (TodoResult t (''Todo '' @ quoted (title t) @ '' marked as incomplete'')
                                None))))"

definition toggleTodo :: "string \<Rightarrow> appstate \<Rightarrow> int option \<Rightarrow> appstate \<times> (error + op_result)" where
  "toggleTodo now s i =
     (case i of
        None \<Rightarrow> (s, Inl (Error (join ''; '' (validateTodoId None))))
      | Some n \<Rightarrow>
          if validateTodoId (Some n) \<noteq> [] then
            (s, Inl (Error (join ''; '' (validateTodoId (Some n)))))
          else
            (case findIndex (\<lambda>t. todo_id t = n) (todos s) of
               None \<Rightarrow> (s, Inl (not_found n))
             | Some k \<Rightarrow>
                 let wasCompleted = completed (todos s ! k);
                     t = toggle now (todos s ! k);
                     s1 = s\<lparr>todos := (todos s)[k := t]\<rparr>;
                     s2 = fst (updateTodo s1 t);
                     status = (if wasCompleted then ''incomplete'' else ''complete'')
                 in (s2, Inr (TodoResult t (''Todo '' @ quoted (title t) @ '' marked as '' @ status)
                                None))))"

definition editTodo ::
  "string \<Rightarrow> appstate \<Rightarrow> int option \<Rightarrow> string option \<Rightarrow> appstate \<times> (error + op_result)" where
  "editTodo now s i newTitle =
     (if validateTodoId i \<noteq> [] then (s, Inl (Error (join ''; '' (validateTodoId i))))
      else if validateTodoInput newTitle \<noteq> [] then
        (s, Inl (Error (join ''; '' (validateTodoInput newTitle))))
      else
        (case (i, newTitle) of
           (Some n, Some nt) \<Rightarrow>
             (case findIndex (\<lambda>t. todo_id t = n) (todos s) of
                None \<Rightarrow> (s, Inl (not_found n))
              | Some k \<Rightarrow>
                  let oldTitle = title (todos s ! k)
                  in (case updateTitle now (todos s ! k) nt of
                        Inl e \<Rightarrow> (s, Inl e)
                      | Inr t \<Rightarrow>
                          let s1 = s\<lparr>todos := (todos s)[k := t]\<rparr>;
                              s2 = fst (updateTodo s1 t)
                          in (s2, Inr (EditResult t oldTitle
                                (''Todo updated: '' @ quoted oldTitle @ '' -> '' @ quoted (title t))
                                None))))
         | _ \<Rightarrow> (s, Inl (Error (join ''; '' (validateTodoId i @ validateTodoInput newTitle))))))"

definition completeTodoWithPersistence ::
  "save_function option \<Rightarrow> string \<Rightarrow> appstate \<Rightarrow> int option \<Rightarrow> appstate \<times> (error + op_result)" where
  "completeTodoWithPersistence saveFunction now s i =
     (case i of
        None \<Rightarrow> (s, Inl (Error (join ''; '' (validateTodoId None))))
      | Some n \<Rightarrow>
          if validateTodoId (Some n) \<noteq> [] then
            (s, Inl (Error (join ''; '' (validateTodoId (Some n)))))
          else
            (case findIndex (\<lambda>t. todo_id t = n) (todos s) of
               None \<Rightarrow> (s, Inl (not_found n))
             | Some k \<Rightarrow>
                 let t = complete now (todos s ! k);
                     s1 = s\<lparr>todos := (todos s)[k := t]\<rparr>;
                     s2 = fst (updateTodo s1 t)
                 in (case try_save saveFunction s2 of
                       Inl e \<Rightarrow> (s2, Inl e)
                     | Inr saved \<Rightarrow>
                         (s2, Inr (TodoResult t
                                (''Todo '' @ quoted (title t) @ '' marked as complete'')
                                (Some saved))))))"

definition incompleteTodoWithPersistence ::
  "save_function option \<Rightarrow> string \<Rightarrow> appstate \<Rightarrow> int option \<Rightarrow> appstate \<times> (error + op_result)" where
  "incompleteTodoWithPersistence saveFunction now s i =
     (case i of
        None \<Rightarrow> (s, Inl (Error (join ''; '' (validateTodoId None))))
      | Some n \<Rightarrow>
          if validateTodoId (Some n) \<noteq> [] then
            (s, Inl (Error (join ''; '' (validateTodoId (Some n)))))
          else
            (case findIndex (\<lambda>t. todo_id t = n) (todos s) of
               None \<Rightarrow> (s, Inl (not_found n))
             | Some k \<Rightarrow>
                 let t = uncomplete now (todos s ! k);
                     s1 = s\<lparr>todos := (todos s)[k := t]\<rparr>;
                     s2 = fst (updateTodo s1 t)
                 in (case try_save saveFunction s2 of
                       Inl e \<Rightarrow> (s2, Inl e)
                     | Inr saved \<Rightarrow>
                         (s2, Inr (TodoResult t
                                (''Todo '' @ quoted (title t) @ '' marked as incomplete'')
                                (Some saved))))))"

definition toggleTodoWithPersistence ::
  "save_function option \<Rightarrow> string \<Rightarrow> appstate \<Rightarrow> int option \<Rightarrow> appstate \<times> (error + op_result)" where
  "toggleTodoWithPersistence saveFunction now s i =
     (case i of
        None \<Rightarrow> (s, Inl (Error (join ''; '' (validateTodoId None))))
      | Some n \<Rightarrow>
          if validateTodoId (Some n) \<noteq> [] then
            (s, Inl (Error (join ''; '' (validateTodoId (Some n)))))
          else
            (case findIndex (\<lambda>t. todo_id t = n) (todos s) of
               None \<Rightarrow> (s, Inl (not_found n))
             | Some k \<Rightarrow>
                 let wasCompleted = completed (todos s ! k);
                     t = toggle now (todos s ! k);
                     s1 = s\<lparr>todos := (todos s)[k := t]\<rparr>;
                     s2 = fst (updateTodo s1 t)
                 in (case try_save saveFunction s2 of
                       Inl e \<Rightarrow> (s2, Inl e)
                     | Inr saved \<Rightarrow>
                         let status = (if wasCompleted then ''incomplete'' else ''complete'')
                         in (s2, Inr (TodoResult t
                                (''Todo '' @ quoted (title t) @ '' marked as '' @ status)
                                (Some saved))))))"

definition editTodoWithPersistence ::
  "save_function option \<Rightarrow> string \<Rightarrow> appstate \<Rightarrow> int option \<Rightarrow> string option \<Rightarrow>
     appstate \<times> (error + op_result)" where
  "editTodoWithPersistence saveFunction now s i newTitle =
     (if validateTodoId i \<noteq> [] then (s, Inl (Error (join ''; '' (validateTodoId i))))
      else if validateTodoInput newTitle \<noteq> [] then
        (s, Inl (Error (join ''; '' (validateTodoInput newTitle))))
      else
        (case (i, newTitle) of
           (Some n, Some nt) \<Rightarrow>
             (case findIndex (\<lambda>t. todo_id t = n) (todos s) of
                None \<Rightarrow> (s, Inl (not_found n))
              | Some k \<Rightarrow>
                  let oldTitle = title (todos s ! k)
                  in (case updateTitle now (todos s ! k) nt of
                        Inl e \<Rightarrow> (s, Inl e)
                      | Inr t \<Rightarrow>
                          let s1 = s\<lparr>todos := (todos s)[k := t]\<rparr>;
                              s2 = fst (updateTodo s1 t)
                          in (case try_save saveFunction s2 of
                                Inl e \<Rightarrow> (s2, Inl e)
                              | Inr saved \<Rightarrow>
                                  (s2, Inr (EditResult t oldTitle
                                     (''Todo updated: '' @ quoted oldTitle @ '' -> ''
                                        @ quoted (title t))
                                     (Some saved))))))
         | _ \<Rightarrow> (s, Inl (Error (join ''; '' (validateTodoId i @ validateTodoInput newTitle))))))"

definition deleteTodoWithPersistence ::
  "save_function option \<Rightarrow> appstate \<Rightarrow> int option \<Rightarrow> appstate \<times> (error + op_result)" where
  "deleteTodoWithPersistence saveFunction s i =
     (case i of
        None \<Rightarrow> (s, Inl (Error (join ''; '' (validateTodoId None))))
      | Some n \<Rightarrow>
          if validateTodoId (Some n) \<noteq> [] then
            (s, Inl (Error (join ''; '' (validateTodoId (Some n)))))
          else
            (case findTodoById s n of
               None \<Rightarrow> (s, Inl (not_found n))
             | Some t \<Rightarrow>
                 let (s1, removed) = removeTodo s n
                 in if \<not> removed then
                      (s1, Inl (Error (''Failed to remove todo with ID '' @ show_int n)))
                    else
                      (case try_save saveFunction s1 of
                         Inl e \<Rightarrow> (s1, Inl e)
                       | Inr saved \<Rightarrow>
                           (s1, Inr (TodoResult t
                              (''Todo '' @ quoted (title t) @ '' deleted successfully'')
                              (Some saved))))))"

text \<open>The loop of \<open>deleteMultipleTodosWithPersistence\<close>, which deletes without saving
  and collects the results and the errors.\<close>

fun delete_each :: "appstate \<Rightarrow> int list \<Rightarrow> appstate \<times> op_result list \<times> (int \<times> string) list" where
  "delete_each s [] = (s, [], [])"
| "delete_each s (i # ids) =
     (case deleteTodoWithPersistence None s (Some i) of
        (s1, Inr r) \<Rightarrow> (case delete_each s1 ids of (s2, rs, es) \<Rightarrow> (s2, r # rs, es))
      | (s1, Inl e) \<Rightarrow>
          (case delete_each s1 ids of (s2, rs, es) \<Rightarrow> (s2, rs, (i, error_message e) # es)))"

record multi_delete =
  md_results :: "op_result list"
  md_errors :: "(int \<times> string) list"
  totalDeleted :: nat
  totalErrors :: nat
  md_saveSuccess :: bool

text \<open>The state is saved once after the loop, when something was deleted; the error
  handler of this save step is the same as in the other handlers.\<close>

definition deleteMultipleTodosWithPersistence ::
  "save_function option \<Rightarrow> appstate \<Rightarrow> int list \<Rightarrow> appstate \<times> (error + multi_delete)" where
  "deleteMultipleTodosWithPersistence saveFunction s ids =
     (case delete_each s ids of
        (s1, rs, es) \<Rightarrow>
          let successCount = length rs
          in (case (if successCount > 0 then try_save saveFunction s1 else Inr False) of
                Inl e \<Rightarrow> (s1, Inl e)
              | Inr saved \<Rightarrow>
                  (s1, Inr \<lparr>md_results = rs, md_errors = es, totalDeleted = successCount,
                             totalErrors = length es, md_saveSuccess = saved\<rparr>)))"

definition clearCompletedTodosWithPersistence ::
  "save_function option \<Rightarrow> appstate \<Rightarrow> appstate \<times> (error + op_result)" where
  "clearCompletedTodosWithPersistence saveFunction s =
     (let completedTodos = filter completed (todos s)
      in if length completedTodos = 0 then
           (s, Inr (ClearResult [] 0 ''No completed todos to clear'' (Some False)))
         else
           let completedIds = map todo_id completedTodos
           in (case deleteMultipleTodosWithPersistence saveFunction s completedIds of
                 (s1, Inl e) \<Rightarrow> (s1, Inl e)
               | (s1, Inr deleteResults) \<Rightarrow>
                   (s1, Inr (ClearResult completedTodos (length completedTodos)
                      (decimal (length completedTodos) @ '' completed todo(s) cleared'')
                      (Some (md_saveSuccess deleteResults))))))"

section \<open>Listing\<close>

definition filter_message :: string where
  "filter_message = ''Filter must be '' @ quoted ''all'' @ '', '' @ quoted ''active'' @ '', or ''
     @ quoted ''completed''"

text \<open>A missing \<open>filter\<close> argument takes its default \<open>'all'\<close>.\<close>

definition listTodos :: "appstate \<Rightarrow> string option \<Rightarrow> appstate \<times> (error + todo list)" where
  "listTodos s filter_arg =
     (let fltr = (case filter_arg of None \<Rightarrow> ''all'' | Some f \<Rightarrow> f)
      in if fltr \<notin> set VIEWS then (s, Inl (Error filter_message))
         else (case setCurrentView s (Some fltr) of
                 Inl e \<Rightarrow> (s, Inl e)
               | Inr s1 \<Rightarrow> (s1, Inr (getFilteredTodos s1))))"

text \<open>The statistics, without \<open>completedPercentage\<close>, which is computed in floating
  point.\<close>

definition getTodoStats :: "appstate \<Rightarrow> stats" where
  "getTodoStats s =
     \<lparr>total = length (todos s),
      active = length (filter (\<lambda>t. \<not> completed t) (todos s)),
      completed_count = length (filter completed (todos s))\<rparr>"

fun includes_str :: "string \<Rightarrow> string \<Rightarrow> bool" where
  "includes_str [] sub = (sub = [])"
| "includes_str (c # cs) sub = (take (length sub) (c # cs) = sub \<or> includes_str cs sub)"

definition searchTodos ::
  "appstate \<Rightarrow> string option \<Rightarrow> string option \<Rightarrow> appstate \<times> (error + todo list)" where
  "searchTodos s searchTerm filter_arg =
     (case searchTerm of
        None \<Rightarrow> (s, Inl (Error ''Search term must be a string''))
      | Some needle \<Rightarrow>
          let fltr = (case filter_arg of None \<Rightarrow> ''all'' | Some f \<Rightarrow> f)
          in if fltr \<notin> set VIEWS then (s, Inl (Error filter_message))
             else (case listTodos s (Some fltr) of
                     (s1, Inl e) \<Rightarrow> (s1, Inl e)
                   | (s1, Inr filteredTodos) \<Rightarrow>
                       let searchLower = toLowerCase needle
                       in (s1, Inr (filter (\<lambda>t. includes_str (toLowerCase (title t)) searchLower)
                                      filteredTodos))))"

text \<open>Strings compare by code units.\<close>

fun str_less :: "string \<Rightarrow> string \<Rightarrow> bool" where
  "str_less [] [] = False"
| "str_less [] (y # ys) = True"
| "str_less (x # xs) [] = False"
| "str_less (x # xs) (y # ys) = ((of_char x :: nat) < of_char y \<or> (x = y \<and> str_less xs ys))"

text \<open>
  \<open>valueA > valueB\<close> for the property \<open>sortBy\<close> of two items.  \<open>dateval\<close> is the time
  value of \<open>new Date(text)\<close>, \<open>None\<close> for an invalid date, which compares false with
  everything.
\<close>

definition greater_by :: "(string \<Rightarrow> int option) \<Rightarrow> string \<Rightarrow> todo \<Rightarrow> todo \<Rightarrow> bool" where
  "greater_by dateval sortBy a b =
     (if sortBy = ''id'' then todo_id a > todo_id b
      else if sortBy = ''title'' then str_less (toLowerCase (title b)) (toLowerCase (title a))
      else if sortBy = ''createdAt'' then
        (case (dateval (createdAt a), dateval (createdAt b)) of
           (Some x, Some y) \<Rightarrow> x > y | _ \<Rightarrow> False)
      else if sortBy = ''updatedAt'' then
        (case (dateval (updatedAt a), dateval (updatedAt b)) of
           (Some x, Some y) \<Rightarrow> x > y | _ \<Rightarrow> False)
      else completed a \<and> \<not> completed b)"

definition compare_by :: "(string \<Rightarrow> int option) \<Rightarrow> string \<Rightarrow> bool \<Rightarrow> todo \<Rightarrow> todo \<Rightarrow> int" where
  "compare_by dateval sortBy ascending a b =
     (if ascending then
        (if greater_by dateval sortBy a b then 1 else if greater_by dateval sortBy b a then - 1 else 0)
      else
        (if greater_by dateval sortBy b a then 1 else if greater_by dateval sortBy a b then - 1 else 0))"

text \<open>\<open>Array.prototype.sort\<close> is stable: an element goes before the first element that
  the comparison puts strictly after it.\<close>

fun insert_by :: "('a \<Rightarrow> 'a \<Rightarrow> int) \<Rightarrow> 'a \<Rightarrow> 'a list \<Rightarrow> 'a list" where
  "insert_by cmp x [] = [x]"
| "insert_by cmp x (y # ys) = (if cmp x y \<le> 0 then x # y # ys else y # insert_by cmp x ys)"

definition sort_by :: "('a \<Rightarrow> 'a \<Rightarrow> int) \<Rightarrow> 'a list \<Rightarrow> 'a list" where
  "sort_by cmp xs = foldr (insert_by cmp) xs []"

definition SORT_KEYS :: "string list" where
  "SORT_KEYS = [''id'', ''title'', ''createdAt'', ''updatedAt'', ''completed'']"

definition sortTodos ::
  "(string \<Rightarrow> int option) \<Rightarrow> appstate \<Rightarrow> string option \<Rightarrow> bool option \<Rightarrow> string option \<Rightarrow>
     appstate \<times> (error + todo list)" where
  "sortTodos dateval s sortBy_arg ascending_arg filter_arg =
     (let sortBy = (case sortBy_arg of None \<Rightarrow> ''id'' | Some k \<Rightarrow> k);
          ascending = (case ascending_arg of None \<Rightarrow> True | Some a \<Rightarrow> a)
      in if sortBy \<notin> set SORT_KEYS then
           (s, Inl (Error ''Sort by must be one of: id, title, createdAt, updatedAt, completed''))
         else (case listTodos s filter_arg of
                 (s1, Inl e) \<Rightarrow> (s1, Inl e)
               | (s1, Inr ts) \<Rightarrow> (s1, Inr (sort_by (compare_by dateval sortBy ascending) ts))))"

section \<open>The dispatcher\<close>

definition helpText :: string where
  "helpText = join [CHR 0x0A]
     [[],
      ''Todo Application Commands:'',
      ''  add '' @ [CHR 0x22] @ ''task'' @ [CHR 0x22] @ '' or new '' @ [CHR 0x22] @ ''task'' @ [CHR 0x22] @ '' or create '' @ [CHR 0x22] @ ''task'' @ [CHR 0x22] @ '' - Add a new todo'',
      ''  complete # or done # or finish # - Mark todo # as complete'',
      ''  incomplete # or notdone # - Mark todo # as incomplete'',
      ''  toggle # - Toggle completion status of todo #'',
      ''  delete # or remove # - Delete todo #'',
      ''  edit # '' @ [CHR 0x22] @ ''new task'' @ [CHR 0x22] @ '' - Edit the title of todo #'',
      ''  list [all|active|completed] - List todos with optional filter'',
      ''  clear or clearcompleted - Clear all completed todos'',
      ''  filter all|active|completed - Set current filter view'',
      ''  search '' @ [CHR 0x22] @ ''term'' @ [CHR 0x22] @ '' - Search todos by term'',
      ''  stats - Show todo statistics'',
      ''  sort id|title|date|status [asc|desc] - Sort todos'',
      ''  help or ? - Show this help'',
      ''  exit or quit or q - Exit the application'',
      [],
      ''Examples:'',
      ''  add '' @ [CHR 0x22] @ ''Buy groceries'' @ [CHR 0x22],
      ''  complete 1'',
      ''  list active'',
      ''  search '' @ [CHR 0x22] @ ''groceries'' @ [CHR 0x22],
      ''  clear'',
      ''  help'',
      [],
      ''Shortcuts:'',
      ''  a - add'',
      ''  c # - complete #'',
      ''  i # - incomplete #'',
      ''  t # - toggle #'',
      ''  d # - delete #'',
      ''  e # '' @ [CHR 0x22] @ ''title'' @ [CHR 0x22] @ '' - edit #'',
      ''  l - list'',
      ''  cc - clear completed'',
      ''  f - filter'',
      ''  h - help'',
      ''  x - exit'',
      ''        '']"

record route_result =
  success :: bool
  r_error :: "string option"
  r_command :: "command_type option"
  r_result :: "op_result option"

definition succeeded :: "command_type \<Rightarrow> op_result \<Rightarrow> route_result" where
  "succeeded ty r = \<lparr>success = True, r_error = None, r_command = Some ty, r_result = Some r\<rparr>"

text \<open>The handlers of the router, before the \<open>catch\<close> of \<open>routeCommand\<close>.\<close>

definition handleListTodos ::
  "(string \<Rightarrow> int option) \<Rightarrow> appstate \<Rightarrow> command \<Rightarrow> appstate \<times> (error + route_result)" where
  "handleListTodos dateval s c =
     (let p = cmd_payload c;
          listed =
            (if m_search (cmd_meta c) then searchTodos s (p_searchTerm p) (p_filter p)
             else if m_sort (cmd_meta c) then
               sortTodos dateval s (p_sortBy p) (p_ascending p) (p_filter p)
             else listTodos s (p_filter p))
      in case listed of
           (s1, Inl e) \<Rightarrow> (s1, Inl e)
         | (s1, Inr ts) \<Rightarrow>
             let sts = (if m_stats (cmd_meta c) then Some (getTodoStats s1) else None)
             in (s1, Inr (succeeded LIST_TODOS (ListResult ts sts (p_filter p) (length ts)))))"

definition handleFilterTodos :: "appstate \<Rightarrow> command \<Rightarrow> appstate \<times> (error + route_result)" where
  "handleFilterTodos s c =
     (case setCurrentView s (p_filter (cmd_payload c)) of
        Inl e \<Rightarrow> (s, Inl e)
      | Inr s1 \<Rightarrow>
          (case listTodos s1 (p_filter (cmd_payload c)) of
             (s2, Inl e) \<Rightarrow> (s2, Inl e)
           | (s2, Inr ts) \<Rightarrow>
               (s2, Inr (succeeded FILTER_TODOS
                  (FilterResult ts (p_filter (cmd_payload c))
                     (''Now showing '' @ show_opt (p_filter (cmd_payload c)) @ '' todos''))))))"

definition handleUnknownCommand :: "command \<Rightarrow> route_result" where
  "handleUnknownCommand c =
     \<lparr>success = False, r_error = None, r_command = Some UNKNOWN,
      r_result = Some (UnknownResult
        (''Unknown command: '' @
           (case p_input (cmd_payload c) of
              None \<Rightarrow> ''No input provided''
            | Some i \<Rightarrow> if i = [] then ''No input provided'' else i))
        (''Type '' @ quoted ''help'' @ '' to see available commands''))\<rparr>"

definition wrap :: "command_type \<Rightarrow> appstate \<times> (error + op_result) \<Rightarrow> appstate \<times> (error + route_result)" where
  "wrap ty x = (case x of (s1, Inl e) \<Rightarrow> (s1, Inl e) | (s1, Inr r) \<Rightarrow> (s1, Inr (succeeded ty r)))"

definition handle ::
  "save_function option \<Rightarrow> (string \<Rightarrow> int option) \<Rightarrow> string \<Rightarrow> appstate \<Rightarrow> command_type \<Rightarrow> command \<Rightarrow>
     appstate \<times> (error + route_result)" where
  "handle saveFunction dateval now s ty c =
     (let p = cmd_payload c
      in case ty of
           ADD_TODO \<Rightarrow> wrap ADD_TODO (addTodoWithPersistence saveFunction now s (p_title p))
         | COMPLETE_TODO \<Rightarrow> wrap COMPLETE_TODO (completeTodoWithPersistence saveFunction now s (p_id p))
         | INCOMPLETE_TODO \<Rightarrow>
             wrap INCOMPLETE_TODO (incompleteTodoWithPersistence saveFunction now s (p_id p))
         | TOGGLE_TODO \<Rightarrow> wrap TOGGLE_TODO (toggleTodoWithPersistence saveFunction now s (p_id p))
         | DELETE_TODO \<Rightarrow> wrap DELETE_TODO (deleteTodoWithPersistence saveFunction s (p_id p))
         | EDIT_TODO \<Rightarrow>
             wrap EDIT_TODO (editTodoWithPersistence saveFunction now s (p_id p) (p_title p))
         | LIST_TODOS \<Rightarrow> handleListTodos dateval s c
         | CLEAR_COMPLETED \<Rightarrow>
             wrap CLEAR_COMPLETED (clearCompletedTodosWithPersistence saveFunction s)
         | FILTER_TODOS \<Rightarrow> handleFilterTodos s c
         | HELP \<Rightarrow> (s, Inr (succeeded HELP (HelpResult helpText)))
         | EXIT \<Rightarrow> (s, Inr (succeeded EXIT (ExitResult True ''Exiting application...'')))
         | UNKNOWN \<Rightarrow> (s, Inr (handleUnknownCommand c)))"

text \<open>
  \<open>routeCommand\<close>: a command without a type is rejected with an error that the caller
  receives (\<open>Inl\<close>); an error thrown by a handler is caught and becomes a result with
  \<open>success = False\<close>.
\<close>

definition routeCommand ::
  "save_function option \<Rightarrow> (string \<Rightarrow> int option) \<Rightarrow> string \<Rightarrow> appstate \<Rightarrow> command \<Rightarrow>
     appstate \<times> (error + route_result)" where
  "routeCommand saveFunction dateval now s c =
     (case cmd_type c of
        None \<Rightarrow> (s, Inl (Error ''Invalid command: command must have a type''))
      | Some ty \<Rightarrow>
          (case handle saveFunction dateval now s ty c of
             (s1, Inl e) \<Rightarrow>
               (s1, Inr \<lparr>success = False, r_error = Some (error_message e),
                          r_command = Some ty, r_result = None\<rparr>)
           | (s1, Inr r) \<Rightarrow> (s1, Inr r)))"

section \<open>Snapshots\<close>

text \<open>
  The plain objects that \<open>toJSON\<close> produces and \<open>fromObject\<close> reads, with typed
  properties; a property that is missing is \<open>None\<close>.  The text form between
  \<open>JSON.stringify\<close> and \<open>JSON.parse\<close> is not modelled.
\<close>

record todo_obj =
  o_id :: "int option"
  o_title :: "string option"
  o_completed :: "bool option"
  o_createdAt :: "string option"
  o_updatedAt :: "string option"

record state_obj =
  o_todos :: "todo_obj list option"
  o_nextId :: "int option"
  o_currentView :: "string option"

definition Todo_toJSON :: "todo \<Rightarrow> todo_obj" where
  "Todo_toJSON t =
     \<lparr>o_id = Some (todo_id t), o_title = Some (title t), o_completed = Some (completed t),
      o_createdAt = Some (createdAt t), o_updatedAt = Some (updatedAt t)\<rparr>"

definition Todo_fromObject :: "string \<Rightarrow> todo_obj \<Rightarrow> error + todo" where
  "Todo_fromObject now obj =
     (case (o_id obj, o_title obj) of
        (Some i, Some t) \<Rightarrow>
          Inr (Todo now i t (case o_completed obj of None \<Rightarrow> False | Some c \<Rightarrow> c)
                 (o_createdAt obj) (o_updatedAt obj))
      | _ \<Rightarrow> Inl (Error ''Todo object must have id and title''))"

definition AppState_toJSON :: "appstate \<Rightarrow> state_obj" where
  "AppState_toJSON s =
     \<lparr>o_todos = Some (map Todo_toJSON (todos s)), o_nextId = Some (nextId s),
      o_currentView = Some (currentView s)\<rparr>"

text \<open>\<open>todos.map(fromObject)\<close>: the first error thrown ends the conversion.\<close>

fun map_fromObject :: "string \<Rightarrow> todo_obj list \<Rightarrow> error + todo list" where
  "map_fromObject now [] = Inr []"
| "map_fromObject now (obj # objs) =
     (case Todo_fromObject now obj of
        Inl e \<Rightarrow> Inl e
      | Inr t \<Rightarrow> (case map_fromObject now objs of Inl e \<Rightarrow> Inl e | Inr ts \<Rightarrow> Inr (t # ts)))"

definition AppState_fromObject :: "string \<Rightarrow> state_obj \<Rightarrow> error + appstate" where
  "AppState_fromObject now obj =
     (case (case o_todos obj of None \<Rightarrow> Inr [] | Some objs \<Rightarrow> map_fromObject now objs) of
        Inl e \<Rightarrow> Inl e
      | Inr todoInstances \<Rightarrow>
          Inr (AppState todoInstances
                 (case o_nextId obj of None \<Rightarrow> 1 | Some n \<Rightarrow> if n = 0 then 1 else n)
                 (case o_currentView obj of None \<Rightarrow> ''all'' | Some v \<Rightarrow> if v = [] then ''all'' else v)))"

text \<open>
  The path of the application itself: \<open>saveTodosToFile\<close> writes the state over the
  default data, and \<open>loadTodosAsInstances\<close> reads it back through
  \<open>ensureDataCompatibility\<close>, replacing an object that \<open>fromObject\<close> rejects by a
  recovered item.  \<open>now_ms\<close> is \<open>Date.now()\<close>.
\<close>

record file_obj = state_obj +
  o_version :: "string option"

definition saved_data :: "appstate \<Rightarrow> file_obj" where
  "saved_data s =
     \<lparr>o_todos = Some (map Todo_toJSON (todos s)), o_nextId = Some (nextId s),
      o_currentView = Some (currentView s), o_version = Some ''1.0.0''\<rparr>"

definition ensureDataCompatibility :: "file_obj \<Rightarrow> file_obj" where
  "ensureDataCompatibility data =
     \<lparr>o_todos = Some (case o_todos data of None \<Rightarrow> [] | Some objs \<Rightarrow> objs),
      o_nextId = Some (case o_nextId data of None \<Rightarrow> 1 | Some n \<Rightarrow> if n < 1 then 1 else n),
      o_currentView =
        Some (case o_currentView data of None \<Rightarrow> ''all''
              | Some v \<Rightarrow> if v \<in> set VIEWS then v else ''all''),
      o_version = Some (case o_version data of None \<Rightarrow> ''1.0.0'' | Some v \<Rightarrow> v)\<rparr>"

definition recover :: "string \<Rightarrow> int \<Rightarrow> todo_obj \<Rightarrow> todo" where
  "recover now now_ms obj =
     (case Todo_fromObject now obj of
        Inr t \<Rightarrow> t
      | Inl e \<Rightarrow>
          Todo now
            (case o_id obj of None \<Rightarrow> now_ms | Some i \<Rightarrow> if i = 0 then now_ms else i)
            (case o_title obj of None \<Rightarrow> ''Recovery todo''
             | Some t \<Rightarrow> if t = [] then ''Recovery todo'' else t)
            (case o_completed obj of None \<Rightarrow> False | Some c \<Rightarrow> c)
            (o_createdAt obj) (o_updatedAt obj))"

definition loadTodosAsInstances :: "string \<Rightarrow> int \<Rightarrow> file_obj \<Rightarrow> appstate" where
  "loadTodosAsInstances now now_ms parsedData =
     (let data = ensureDataCompatibility parsedData
      in case o_todos data of
           None \<Rightarrow> AppState [] 1 ''all''
         | Some objs \<Rightarrow>
             AppState (map (recover now now_ms) objs)
               (case o_nextId data of None \<Rightarrow> 1 | Some n \<Rightarrow> if n = 0 then 1 else n)
               (case o_currentView data of None \<Rightarrow> ''all'' | Some v \<Rightarrow> if v = [] then ''all'' else v))"

section \<open>Notions used by the properties\<close>

text \<open>A sequence of Add operations, each at its own time and with its own title
  argument; an Add that fails leaves the state as it was.\<close>

fun run_adds :: "appstate \<Rightarrow> (string \<times> string option) list \<Rightarrow> appstate" where
  "run_adds s [] = s"
| "run_adds s ((now, t) # ops) = run_adds (fst (addTodo now s t)) ops"

definition ids_ok :: "appstate \<Rightarrow> bool" where
  "ids_ok s =
     (distinct (map todo_id (todos s)) \<and>
      nextId s = 1 + Max (insert 0 (set (map todo_id (todos s)))))"

text \<open>Removal of the first item with a given id, as the specification words it.\<close>

fun remove_first :: "int \<Rightarrow> todo list \<Rightarrow> todo list" where
  "remove_first i [] = []"
| "remove_first i (t # ts) = (if todo_id t = i then ts else t # remove_first i ts)"

text \<open>The frame of an operation on the item with id \<open>i\<close>: the ids are the same in the
  same order, every item with another id is the same in all fields, and the counter
  and the view are the same.\<close>

definition only_changes :: "int \<Rightarrow> appstate \<Rightarrow> appstate \<Rightarrow> bool" where
  "only_changes i s s' =
     (map todo_id (todos s') = map todo_id (todos s) \<and>
      (\<forall>k < length (todos s). todo_id (todos s ! k) \<noteq> i \<longrightarrow> todos s' ! k = todos s ! k) \<and>
      nextId s' = nextId s \<and> currentView s' = currentView s)"

text \<open>The invariants of the data model that the round trip relies on, and the part of
  an item that the round trip is about.\<close>

definition state_invariants :: "appstate \<Rightarrow> bool" where
  "state_invariants s =
     ((\<forall>t\<in>set (todos s). title t \<noteq> [] \<and> trim (title t) = title t) \<and>
      1 \<le> nextId s \<and> currentView s \<in> set VIEWS)"

definition essence :: "todo \<Rightarrow> int \<times> string \<times> bool" where
  "essence t = (todo_id t, title t, completed t)"

text \<open>A string contains an embedded pair of quotes when two quote characters lie
  strictly inside it, that is between its first and its last character.\<close>

definition embedded_quote_pairs :: "string \<Rightarrow> bool" where
  "embedded_quote_pairs s = (2 \<le> length (filter (\<lambda>c. c = CHR 0x22) (butlast (tl s))))"

section \<open>Auxiliary facts\<close>

lemma Todo_id [simp]: "todo_id (Todo now i t c cr up) = i"
  by (simp add: Todo_def)

subsection \<open>Trimming\<close>

lemma dropWhile_all_iff: "(\<forall>x\<in>set (dropWhile P xs). P x) \<longleftrightarrow> (\<forall>x\<in>set xs. P x)"
proof
  assume a: "\<forall>x\<in>set (dropWhile P xs). P x"
  have "dropWhile P xs = []"
  proof (rule ccontr)
    assume n: "dropWhile P xs \<noteq> []"
    then have "\<not> P (hd (dropWhile P xs))" by (rule hd_dropWhile)
    moreover have "hd (dropWhile P xs) \<in> set (dropWhile P xs)" using n by simp
    ultimately show False using a by blast
  qed
  then show "\<forall>x\<in>set xs. P x" by (simp add: dropWhile_eq_Nil_conv)
next
  assume "\<forall>x\<in>set xs. P x"
  then show "\<forall>x\<in>set (dropWhile P xs). P x" using set_dropWhileD by fast
qed

lemma trim_Nil_iff: "trim s = [] \<longleftrightarrow> (\<forall>c\<in>set s. is_space c)"
  by (simp add: trim_def dropWhile_eq_Nil_conv dropWhile_all_iff)

lemma trim_idem: "trim (trim s) = trim s"
proof -
  let ?a = "dropWhile is_space s"
  let ?b = "dropWhile is_space (rev ?a)"
  have r: "trim s = rev ?b" by (simp add: trim_def)
  show ?thesis
  proof (cases "?b = []")
    case True
    then have "trim s = []" using r by simp
    then show ?thesis by (simp add: trim_def[of "[]"])
  next
    case False
    have a: "?a \<noteq> []"
    proof
      assume "?a = []"
      then have "?b = []" by (auto dest: set_dropWhileD)
      with False show False by simp
    qed
    have hb: "\<not> is_space (hd ?b)" using False by (rule hd_dropWhile)
    have "rev ?a = takeWhile is_space (rev ?a) @ ?b" by simp
    then have "last (rev ?a) = last ?b" using False by (metis last_appendR)
    then have "last ?b = hd ?a" using a by (simp add: last_rev)
    moreover have "\<not> is_space (hd ?a)" using a by (rule hd_dropWhile)
    ultimately have "\<not> is_space (hd (rev ?b))" using False by (simp add: hd_rev)
    then have 1: "dropWhile is_space (rev ?b) = rev ?b"
      by (simp add: dropWhile_eq_self_iff)
    have 2: "dropWhile is_space ?b = ?b" using hb by (simp add: dropWhile_eq_self_iff)
    show ?thesis unfolding r by (simp add: trim_def[of "rev ?b"] 1 2)
  qed
qed

lemma trim_padded: "trim (CHR ''a'' # replicate 255 (CHR '' '')) = ''a''"
proof -
  have "dropWhile is_space (replicate 255 (CHR '' '') @ ''a'') = dropWhile is_space ''a''"
    by (rule dropWhile_append2) (simp add: is_space_def)
  then show ?thesis by (simp add: trim_def is_space_def)
qed

subsection \<open>Finding an item\<close>

lemma findIndex_Some: "findIndex P xs = Some k \<Longrightarrow> k < length xs \<and> P (xs ! k)"
  by (induction xs arbitrary: k) (auto split: if_splits)

lemma findIndex_None: "(findIndex P xs = None) = (\<forall>x\<in>set xs. \<not> P x)"
  by (induction xs) auto

lemma findIndex_update: "findIndex P xs = Some k \<Longrightarrow> P y \<Longrightarrow> findIndex P (xs[k := y]) = Some k"
  by (induction xs arbitrary: k) (auto split: if_splits)

lemma only_changes_refl: "only_changes i s s"
  by (simp add: only_changes_def)

text \<open>Writing a changed item with the same id back at the place where it was found,
  and then replacing it through \<open>updateTodo\<close>, touches that place only.\<close>

lemma frame_update:
  assumes f: "findIndex (\<lambda>t. todo_id t = n) (todos s) = Some k" and t: "todo_id t' = n"
  shows "only_changes n s (fst (updateTodo (s\<lparr>todos := (todos s)[k := t']\<rparr>) t'))"
proof -
  from f have k: "k < length (todos s)" "todo_id (todos s ! k) = n"
    using findIndex_Some[OF f] by auto
  have "findIndex (\<lambda>t. todo_id t = todo_id t') ((todos s)[k := t']) = Some k"
    using findIndex_update[OF f, of t'] t by simp
  then have eq: "fst (updateTodo (s\<lparr>todos := (todos s)[k := t']\<rparr>) t') = s\<lparr>todos := (todos s)[k := t']\<rparr>"
    by (simp add: updateTodo_def)
  have "map todo_id ((todos s)[k := t']) = (map todo_id (todos s))[k := todo_id (todos s ! k)]"
    using k t by (simp add: map_update)
  also have "\<dots> = map todo_id (todos s)"
    using k by (metis list_update_id nth_map)
  finally have m: "map todo_id ((todos s)[k := t']) = map todo_id (todos s)" .
  have "\<forall>j < length (todos s). todo_id (todos s ! j) \<noteq> n \<longrightarrow> (todos s)[k := t'] ! j = todos s ! j"
    using k by (auto simp: nth_list_update)
  with m show ?thesis unfolding eq only_changes_def by simp
qed

lemma completeTodo_frame: "only_changes i s (fst (completeTodo now s (Some i)))"
  by (auto simp: completeTodo_def Let_def only_changes_refl complete_def
      intro!: frame_update dest: findIndex_Some split: option.splits)

lemma incompleteTodo_frame: "only_changes i s (fst (incompleteTodo now s (Some i)))"
  by (auto simp: incompleteTodo_def Let_def only_changes_refl uncomplete_def
      intro!: frame_update dest: findIndex_Some split: option.splits)

lemma toggleTodo_frame: "only_changes i s (fst (toggleTodo now s (Some i)))"
  by (auto simp: toggleTodo_def Let_def only_changes_refl toggle_def
      intro!: frame_update dest: findIndex_Some split: option.splits)

lemma editTodo_frame: "only_changes i s (fst (editTodo now s (Some i) nt))"
  by (auto simp: editTodo_def Let_def only_changes_refl updateTitle_def
      intro!: frame_update dest: findIndex_Some split: option.splits sum.splits if_splits)

subsection \<open>Adding\<close>

lemma addTodo_cases:
  "fst (addTodo now s t) = s \<or>
   (\<exists>x. todo_id x = nextId s \<and>
        fst (addTodo now s t) = s\<lparr>todos := todos s @ [x], nextId := nextId s + 1\<rparr>)"
proof (cases t)
  case None
  then show ?thesis by (simp add: addTodo_def)
next
  case (Some a)
  show ?thesis
  proof (cases "validateTodoInput (Some a) = []")
    case True
    let ?x = "Todo now (nextId s) (trim a) False None None"
    have "todo_id ?x = nextId s" by simp
    moreover have "fst (addTodo now s t) = s\<lparr>todos := todos s @ [?x], nextId := nextId s + 1\<rparr>"
      using Some True by (simp add: addTodo_def Let_def AppState_addTodo_def)
    ultimately show ?thesis by blast
  next
    case False
    with Some show ?thesis by (simp add: addTodo_def)
  qed
qed

lemma ids_ok_step:
  assumes "ids_ok s"
  shows "ids_ok (fst (addTodo now s t))"
proof -
  let ?ids = "set (map todo_id (todos s))"
  from addTodo_cases[of now s t] show ?thesis
  proof
    assume "fst (addTodo now s t) = s"
    with assms show ?thesis by simp
  next
    assume "\<exists>x. todo_id x = nextId s \<and>
      fst (addTodo now s t) = s\<lparr>todos := todos s @ [x], nextId := nextId s + 1\<rparr>"
    then obtain x where x: "todo_id x = nextId s"
      and eq: "fst (addTodo now s t) = s\<lparr>todos := todos s @ [x], nextId := nextId s + 1\<rparr>"
      by blast
    have fin: "finite (insert 0 ?ids)" by simp
    have n: "nextId s = 1 + Max (insert 0 ?ids)" using assms by (simp add: ids_ok_def)
    have le: "\<And>j. j \<in> ?ids \<Longrightarrow> j < nextId s"
    proof -
      fix j assume "j \<in> ?ids"
      then have "j \<le> Max (insert 0 ?ids)" using fin by (intro Max_ge) auto
      with n show "j < nextId s" by simp
    qed
    have fresh: "nextId s \<notin> ?ids" using le by blast
    have pos: "0 < nextId s"
    proof -
      have "0 \<le> Max (insert 0 ?ids)" using fin by (intro Max_ge) auto
      with n show ?thesis by linarith
    qed
    have "Max (insert 0 (insert (nextId s) ?ids)) = nextId s"
    proof (rule Max_eqI)
      show "finite (insert 0 (insert (nextId s) ?ids))" by simp
      show "\<And>y. y \<in> insert 0 (insert (nextId s) ?ids) \<Longrightarrow> y \<le> nextId s"
        using le pos by fastforce
      show "nextId s \<in> insert 0 (insert (nextId s) ?ids)" by simp
    qed
    then have mx: "Max (insert 0 (set (map todo_id (todos s @ [x])))) = nextId s"
      using x by (simp add: insert_commute)
    have d: "distinct (map todo_id (todos s @ [x]))"
      using assms fresh x by (simp add: ids_ok_def)
    show ?thesis unfolding eq ids_ok_def using d mx by simp
  qed
qed

lemma ids_ok_run: "ids_ok s \<Longrightarrow> ids_ok (run_adds s ops)"
  by (induction ops arbitrary: s) (auto simp: ids_ok_step)

subsection \<open>Removing\<close>

lemma remove_first_distinct:
  "distinct (map todo_id ts) \<Longrightarrow> remove_first i ts = filter (\<lambda>t. todo_id t \<noteq> i) ts"
proof (induction ts)
  case Nil
  then show ?case by simp
next
  case (Cons t ts)
  show ?case
  proof (cases "todo_id t = i")
    case True
    then have "\<forall>u\<in>set ts. todo_id u \<noteq> i" using Cons.prems by (auto simp: image_iff)
    then have "filter (\<lambda>t. todo_id t \<noteq> i) ts = ts" by (simp add: filter_id_conv)
    with True show ?thesis by simp
  next
    case False
    with Cons show ?thesis by simp
  qed
qed

lemma removeTodo_reports:
  "(length (filter (\<lambda>t. todo_id t \<noteq> i) ts) < length ts) = (i \<in> set (map todo_id ts))"
proof (cases "i \<in> set (map todo_id ts)")
  case True
  then obtain x where "x \<in> set ts" "\<not> todo_id x \<noteq> i" by auto
  then have "length (filter (\<lambda>t. todo_id t \<noteq> i) ts) < length ts"
    by (rule length_filter_less)
  with True show ?thesis by simp
next
  case False
  then have "filter (\<lambda>t. todo_id t \<noteq> i) ts = ts"
    by (auto simp: filter_id_conv)
  with False show ?thesis by simp
qed

subsection \<open>Saving\<close>

text \<open>The state that a handler leaves behind does not depend on the save function.\<close>

lemma add_state:
  "fst (addTodoWithPersistence sv now s t) = fst (addTodo now s t)"
  by (simp add: addTodoWithPersistence_def addTodo_def Let_def split: option.splits sum.splits)

lemma complete_state:
  "fst (completeTodoWithPersistence sv now s i) = fst (completeTodo now s i)"
  by (simp add: completeTodoWithPersistence_def completeTodo_def Let_def
      split: option.splits sum.splits)

lemma incomplete_state:
  "fst (incompleteTodoWithPersistence sv now s i) = fst (incompleteTodo now s i)"
  by (simp add: incompleteTodoWithPersistence_def incompleteTodo_def Let_def
      split: option.splits sum.splits)

lemma toggle_state:
  "fst (toggleTodoWithPersistence sv now s i) = fst (toggleTodo now s i)"
  by (simp add: toggleTodoWithPersistence_def toggleTodo_def Let_def
      split: option.splits sum.splits)

lemma edit_state:
  "fst (editTodoWithPersistence sv now s i t) = fst (editTodo now s i t)"
  by (simp add: editTodoWithPersistence_def editTodo_def Let_def split: option.splits sum.splits)

lemma delete_state:
  "fst (deleteTodoWithPersistence sv s i) = fst (deleteTodoWithPersistence None s i)"
  by (simp add: deleteTodoWithPersistence_def Let_def case_prod_beta
      split: option.splits sum.splits)

lemma deleteMultiple_state:
  "fst (deleteMultipleTodosWithPersistence sv s ids) = fst (delete_each s ids)"
  by (cases "delete_each s ids")
     (simp add: deleteMultipleTodosWithPersistence_def Let_def split: sum.splits)

lemma clear_state:
  "fst (clearCompletedTodosWithPersistence sv s) =
     (if filter completed (todos s) = [] then s
      else fst (delete_each s (map todo_id (filter completed (todos s)))))"
proof (cases "filter completed (todos s) = []")
  case True
  then show ?thesis by (simp add: clearCompletedTodosWithPersistence_def)
next
  case False
  obtain s1 r where d: "deleteMultipleTodosWithPersistence sv s
      (map todo_id (filter completed (todos s))) = (s1, r)"
    by (cases "deleteMultipleTodosWithPersistence sv s (map todo_id (filter completed (todos s)))")
  then have "s1 = fst (delete_each s (map todo_id (filter completed (todos s))))"
    using deleteMultiple_state[of sv s "map todo_id (filter completed (todos s))"] by simp
  then show ?thesis
    using False d by (cases r) (simp_all add: clearCompletedTodosWithPersistence_def Let_def)
qed

lemma wrap_state: "fst (wrap ty x) = fst x"
  by (cases x) (simp add: wrap_def split: sum.splits)

lemma handle_state:
  "fst (handle sv1 dv now s ty c) = fst (handle sv2 dv now s ty c)"
proof (cases ty)
  case DELETE_TODO
  then show ?thesis
    using delete_state[of sv1 s "p_id (cmd_payload c)"] delete_state[of sv2 s "p_id (cmd_payload c)"]
    by (simp add: handle_def Let_def wrap_state)
qed (simp_all add: handle_def Let_def wrap_state add_state complete_state incomplete_state
      toggle_state edit_state clear_state)

lemma route_state:
  "fst (routeCommand sv1 dv now s c) = fst (routeCommand sv2 dv now s c)"
proof (cases "cmd_type c")
  case None
  then show ?thesis by (simp add: routeCommand_def)
next
  case (Some ty)
  have r: "\<And>sv. fst (routeCommand sv dv now s c) = fst (handle sv dv now s ty c)"
    using Some by (simp add: routeCommand_def split: prod.splits sum.splits)
  show ?thesis using handle_state[of sv1 dv now s ty c sv2] by (simp add: r)
qed

text \<open>A save function that throws a value other than \<open>undefined\<close> and \<open>null\<close> on
  every call acts as no save function does: every dispatch has the same state and the
  same result, with \<open>saveSuccess = False\<close> where the result has it.\<close>

lemma try_save_throws_other:
  assumes "\<forall>st. \<exists>m. sv st = Throws (ThrownOther m)"
  shows "try_save (Some sv) st = try_save None st"
proof -
  from assms obtain m where "sv st = Throws (ThrownOther m)" by blast
  then show ?thesis by (simp add: try_save_def)
qed

lemma try_save_fun:
  assumes "\<forall>st. \<exists>m. sv st = Throws (ThrownOther m)"
  shows "try_save (Some sv) = try_save None"
  by (rule ext) (rule try_save_throws_other[OF assms])

lemma handle_throws_other:
  assumes "\<forall>st. \<exists>m. sv st = Throws (ThrownOther m)"
  shows "handle (Some sv) dv now s ty c = handle None dv now s ty c"
  by (simp only: handle_def addTodoWithPersistence_def completeTodoWithPersistence_def
       incompleteTodoWithPersistence_def toggleTodoWithPersistence_def editTodoWithPersistence_def
       deleteTodoWithPersistence_def clearCompletedTodosWithPersistence_def
       deleteMultipleTodosWithPersistence_def try_save_fun[OF assms])

lemma route_throws_other:
  assumes "\<forall>st. \<exists>m. sv st = Throws (ThrownOther m)"
  shows "routeCommand (Some sv) dv now s c = routeCommand None dv now s c"
  by (simp only: routeCommand_def handle_throws_other[OF assms])

text \<open>With such a save function, and with none, a valid Add succeeds, reports the save
  as unsuccessful and appends the item.\<close>

lemma add_without_save:
  assumes "validateTodoInput (Some t) = []"
  shows "routeCommand None dv now s
           (Command (Some ADD_TODO) (no_payload\<lparr>p_title := Some t\<rparr>) no_meta ts)
         = (s\<lparr>todos := todos s @ [Todo now (nextId s) t False None None],
               nextId := nextId s + 1\<rparr>,
            Inr (succeeded ADD_TODO
              (AddResult (Todo now (nextId s) t False None None) (nextId s + 1)
                 (Suc (length (todos s))) (Some False))))"
proof -
  have tt: "Todo now (nextId s) (trim t) False None None = Todo now (nextId s) t False None None"
    by (simp add: Todo_def trim_idem)
  show ?thesis
    using assms
    by (simp add: routeCommand_def handle_def Command_def no_payload_def wrap_def
        addTodoWithPersistence_def Let_def try_save_def tt AppState_addTodo_def)
qed

lemma delete_without_save:
  assumes "1 \<le> n" and "findTodoById s n = Some t"
  shows "routeCommand None dv now s
           (Command (Some DELETE_TODO) (no_payload\<lparr>p_id := Some n\<rparr>) no_meta ts)
         = (s\<lparr>todos := filter (\<lambda>u. todo_id u \<noteq> n) (todos s)\<rparr>,
            Inr (succeeded DELETE_TODO
              (TodoResult t (''Todo '' @ quoted (title t) @ '' deleted successfully'')
                 (Some False))))"
proof -
  from assms(2) have "t \<in> set (todos s)" "todo_id t = n"
    by (auto simp: findTodoById_def find_Some_iff)
  then have "n \<in> set (map todo_id (todos s))" by auto
  then have less: "length (filter (\<lambda>u. todo_id u \<noteq> n) (todos s)) < length (todos s)"
    by (simp only: removeTodo_reports)
  show ?thesis
    using assms less
    by (simp add: routeCommand_def handle_def Command_def no_payload_def wrap_def
        deleteTodoWithPersistence_def validateTodoId_def removeTodo_def Let_def try_save_def)
qed

subsection \<open>The quoted form\<close>

lemma ascii_lower_quote: "ascii_lower c = CHR 0x22 \<longleftrightarrow> c = CHR 0x22"
proof (cases "65 \<le> (of_char c :: nat) \<and> (of_char c :: nat) \<le> 90")
  case True
  then have "(of_char (ascii_lower c) :: nat) = of_char c + 32"
    by (simp add: ascii_lower_def Let_def)
  then have "ascii_lower c \<noteq> CHR 0x22" using True by auto
  moreover have "c \<noteq> CHR 0x22" using True by auto
  ultimately show ?thesis by simp
next
  case False
  then show ?thesis by (auto simp: ascii_lower_def Let_def)
qed

lemma dot_quote: "dot (CHR 0x22)"
  by (simp add: dot_def is_line_terminator_def)

lemma lit_quote:
  "matches (Lit [CHR 0x22]) s = (case s of [] \<Rightarrow> [] | c # cs \<Rightarrow> if c = CHR 0x22 then [([], cs)] else [])"
proof (cases s)
  case Nil
  then show ?thesis by simp
next
  case (Cons c cs)
  have q: "ascii_lower (CHR 0x22) = CHR 0x22" by (simp add: ascii_lower_def)
  show ?thesis using Cons by (simp add: q ascii_lower_quote)
qed

text \<open>The ways to match the rest of the quoted form, after the opening quote, on a
  suffix \<open>r\<close> of \<open>pre @ r\<close> that leave nothing over.\<close>

lemma inner_quote:
  "filter (\<lambda>(g, rest). rest = [])
     (concat (map (\<lambda>(g1, r1). map (\<lambda>(g2, r2). (g1 @ g2, r2)) (matches (Lit [CHR 0x22]) r1))
        (map (\<lambda>r'. ([Some (take (length (pre @ r) - length r') (pre @ r))], r')) (many dot r))))
   = (if r \<noteq> [] \<and> last r = CHR 0x22 \<and> (\<forall>c\<in>set (butlast r). dot c)
      then [([Some (pre @ butlast r)], [])] else [])"
proof (induction r arbitrary: pre)
  case Nil
  then show ?case by (simp add: lit_quote del: matches.simps(1))
next
  case (Cons c cs)
  have ih: "filter (\<lambda>(g, rest). rest = [])
     (concat (map (\<lambda>(g1, r1). map (\<lambda>(g2, r2). (g1 @ g2, r2)) (matches (Lit [CHR 0x22]) r1))
        (map (\<lambda>r'. ([Some (take (length (pre @ c # cs) - length r') (pre @ c # cs))], r')) (many dot cs))))
   = (if cs \<noteq> [] \<and> last cs = CHR 0x22 \<and> (\<forall>c\<in>set (butlast cs). dot c)
      then [([Some (pre @ c # butlast cs)], [])] else [])"
    using Cons.IH[of "pre @ [c]"] by simp
  show ?case
  proof (cases "dot c")
    case True
    show ?thesis
    proof (cases "cs = []")
      case True
      then show ?thesis using \<open>dot c\<close> by (simp add: lit_quote del: matches.simps(1))
    next
      case False
      then show ?thesis using True ih by (simp add: lit_quote del: matches.simps(1))
    qed
  next
    case False
    then have "c \<noteq> CHR 0x22" using dot_quote by auto
    then show ?thesis using False by (auto simp: lit_quote simp del: matches.simps(1))
  qed
qed

lemma match_quoted:
  "match_all QUOTED s =
     (case s of [] \<Rightarrow> None
      | c # r \<Rightarrow> if c = CHR 0x22 \<and> r \<noteq> [] \<and> last r = CHR 0x22 \<and> (\<forall>c\<in>set (butlast r). dot c)
                 then Some [Some (butlast r)] else None)"
proof (cases s)
  case Nil
  then show ?thesis by (simp add: match_all_def QUOTED_def lit_quote del: matches.simps(1))
next
  case (Cons c r)
  show ?thesis
  proof (cases "c = CHR 0x22")
    case False
    then show ?thesis using Cons by (simp add: match_all_def QUOTED_def lit_quote del: matches.simps(1))
  next
    case True
    have "matches QUOTED s =
      concat (map (\<lambda>(g1, r1). map (\<lambda>(g2, r2). (g1 @ g2, r2)) (matches (Lit [CHR 0x22]) r1))
        (map (\<lambda>r'. ([Some (take (length ([] @ r) - length r') ([] @ r))], r')) (many dot r)))"
      using Cons True by (simp add: QUOTED_def lit_quote comp_def del: matches.simps(1))
    then show ?thesis using Cons True inner_quote[of "[]" r]
      by (simp add: match_all_def del: matches.simps)
  qed
qed

lemma stripQuotes_eq:
  "stripQuotes s =
     (case s of [] \<Rightarrow> []
      | c # r \<Rightarrow> if c = CHR 0x22 \<and> r \<noteq> [] \<and> last r = CHR 0x22 \<and> (\<forall>c\<in>set (butlast r). dot c)
                 then butlast r else s)"
  by (simp add: stripQuotes_def match_quoted arg_def split: list.splits)

lemma not_strippable:
  assumes "length (filter (\<lambda>c. c = CHR 0x22) m) < 2"
  shows "stripQuotes m = m"
proof (cases m)
  case Nil
  then show ?thesis by (simp add: stripQuotes_eq)
next
  case (Cons c r)
  show ?thesis
  proof (cases "c = CHR 0x22 \<and> r \<noteq> [] \<and> last r = CHR 0x22")
    case True
    then have "r = butlast r @ [CHR 0x22]" by (metis append_butlast_last_id)
    then obtain b where b: "r = b @ [CHR 0x22]" ..
    have m: "m = CHR 0x22 # b @ [CHR 0x22]" using Cons True b by simp
    have "length (filter (\<lambda>c. c = CHR 0x22) m) = 2 + length (filter (\<lambda>c. c = CHR 0x22) b)"
      unfolding m by simp
    with assms show ?thesis by simp
  next
    case False
    then show ?thesis using Cons by (auto simp: stripQuotes_eq)
  qed
qed

subsection \<open>Snapshots\<close>

lemma fromObject_toJSON:
  "Todo_fromObject now (Todo_toJSON t) =
     Inr (Todo now (todo_id t) (title t) (completed t) (Some (createdAt t)) (Some (updatedAt t)))"
  by (simp add: Todo_fromObject_def Todo_toJSON_def)

lemma essence_Todo:
  "trim (title t) = title t \<Longrightarrow> essence (Todo now (todo_id t) (title t) (completed t) cr up) = essence t"
  by (simp add: essence_def Todo_def)

lemma map_fromObject_toJSON:
  "map_fromObject now (map Todo_toJSON ts) =
     Inr (map (\<lambda>t. Todo now (todo_id t) (title t) (completed t) (Some (createdAt t)) (Some (updatedAt t))) ts)"
  by (induction ts) (simp_all add: fromObject_toJSON)

lemma recover_toJSON:
  "recover now now_ms (Todo_toJSON t) =
     Todo now (todo_id t) (title t) (completed t) (Some (createdAt t)) (Some (updatedAt t))"
  by (simp add: recover_def fromObject_toJSON)

lemma essence_map:
  "\<forall>t\<in>set ts. trim (title t) = title t \<Longrightarrow>
   map essence (map (\<lambda>t. Todo now (todo_id t) (title t) (completed t) (Some (createdAt t)) (Some (updatedAt t))) ts)
     = map essence ts"
  by (induction ts) (simp_all add: essence_Todo)

section \<open>The handlers, apart from the parser\<close>

text \<open>The spelled-out command for item 1 is parsed as a Complete command, and its
  dispatch completes the item and names its title in the message.\<close>

lemma complete_1_parsed:
  "parseCommand now ''complete 1'' =
     Inr (Command (Some COMPLETE_TODO) (no_payload\<lparr>p_id := Some 1\<rparr>) no_meta now)"
  by code_simp

lemma complete_1_dispatched:
  "routeCommand (Some (\<lambda>st. Returns saved)) dv now
     (AppState [\<lparr>todo_id = 1, title = ''Buy milk'', completed = False,
                  createdAt = ''t0'', updatedAt = ''t0''\<rparr>] 2 ''all'')
     (Command (Some COMPLETE_TODO) (no_payload\<lparr>p_id := Some 1\<rparr>) no_meta now')
   = (AppState [\<lparr>todo_id = 1, title = ''Buy milk'', completed = True,
                   createdAt = ''t0'', updatedAt = now\<rparr>] 2 ''all'',
      Inr (succeeded COMPLETE_TODO
        (TodoResult \<lparr>todo_id = 1, title = ''Buy milk'', completed = True,
                      createdAt = ''t0'', updatedAt = now\<rparr>
           (''Todo '' @ quoted ''Buy milk'' @ '' marked as complete'')
           (Some saved))))"
  by (simp add: routeCommand_def handle_def Command_def no_payload_def wrap_def
      completeTodoWithPersistence_def validateTodoId_def AppState_def complete_def
      updateTodo_def Let_def try_save_def)

text \<open>Sorting by title, descending, orders the titles b, a, c as c, b, a.\<close>

lemma sortTodos_title_desc:
  "snd (sortTodos dv
     (AppState [Todo ''t0'' 1 ''b'' False None None, Todo ''t0'' 2 ''a'' False None None,
                Todo ''t0'' 3 ''c'' False None None] 4 ''all'')
     (Some ''title'') (Some False) (Some ''all''))
   = Inr [Todo ''t0'' 3 ''c'' False None None, Todo ''t0'' 1 ''b'' False None None,
          Todo ''t0'' 2 ''a'' False None None]"
  by code_simp

text \<open>Setting the view fails exactly for a view that is not all, active or completed,
  and a view that is one of them becomes the current view.\<close>

lemma setCurrentView_fails_iff:
  "isl (setCurrentView s (Some v)) \<longleftrightarrow> v \<notin> set VIEWS"
  by (simp add: setCurrentView_def)

lemma setCurrentView_sets:
  "v \<in> set VIEWS \<Longrightarrow> setCurrentView s (Some v) = Inr (s\<lparr>currentView := v\<rparr>)"
  by (simp add: setCurrentView_def)

text \<open>A bare alias other than cc, h and x names no command type: the alias table maps it
  to the name of a pattern, which is not a key of \<open>COMMAND_TYPES\<close>.\<close>

lemma bare_alias_has_no_type:
  "parseCommand now ''c'' = Inr (Command None (no_payload\<lparr>p_input := Some ''c''\<rparr>) no_meta now)"
  by code_simp

text \<open>Without the condition on embedded quotes, removing the quotes twice removes
  more than removing them once.\<close>

lemma stripQuotes_twice_differs:
  "stripQuotes (stripQuotes (quoted (quoted ''a''))) = ''a'' \<and>
   stripQuotes (quoted (quoted ''a'')) = quoted ''a''"
  by (simp add: stripQuotes_eq quoted_def dot_def is_line_terminator_def)

section \<open>The claims\<close>

text \<open>
  C1.  The claim: for a container holding an incomplete item with id 1, parsing the input
  \<open>c 1\<close> yields a Complete command with id 1, and dispatching it completes the item.

  The program does otherwise.  An alias is looked up for the whole trimmed input, and
  the pattern of Complete knows the words complete, done, finish and check only, so
  \<open>c 1\<close> is parsed as an Unknown command; its dispatch reports failure and leaves
  every state as it is.
\<close>

theorem C1_alias_with_id_is_unknown:
  "parseCommand now ''c 1'' =
     Inr (Command (Some UNKNOWN) (no_payload\<lparr>p_input := Some ''c 1''\<rparr>) no_meta now) \<and>
   routeCommand sv dv now' s
       (Command (Some UNKNOWN) (no_payload\<lparr>p_input := Some ''c 1''\<rparr>) no_meta now) =
     (s, Inr \<lparr>success = False, r_error = None, r_command = Some UNKNOWN,
               r_result = Some (UnknownResult ''Unknown command: c 1''
                 (''Type '' @ quoted ''help'' @ '' to see available commands''))\<rparr>)"
proof (rule conjI)
  show "parseCommand now ''c 1'' =
     Inr (Command (Some UNKNOWN) (no_payload\<lparr>p_input := Some ''c 1''\<rparr>) no_meta now)"
    by code_simp
next
  show "routeCommand sv dv now' s
       (Command (Some UNKNOWN) (no_payload\<lparr>p_input := Some ''c 1''\<rparr>) no_meta now) =
     (s, Inr \<lparr>success = False, r_error = None, r_command = Some UNKNOWN,
               r_result = Some (UnknownResult ''Unknown command: c 1''
                 (''Type '' @ quoted ''help'' @ '' to see available commands''))\<rparr>)"
    by (simp add: routeCommand_def handle_def handleUnknownCommand_def Command_def no_payload_def)
qed

text \<open>
  C2.  The claim: parsing \<open>sort title desc\<close> produces a List command with sort key
  title and descending direction, and its dispatch on items titled b, a, c returns them
  as c, b, a.

  The program does otherwise.  The command made from the match takes the command word
  for the sort key and compares the sort key with \<open>desc\<close>, so the sort key is
  \<open>sort\<close> and the direction ascending; the dispatch rejects the sort key and reports
  failure, whatever the state.
\<close>

theorem C2_sort_takes_the_command_word:
  "parseCommand now ''sort title desc'' =
     Inr (Command (Some LIST_TODOS)
            (no_payload\<lparr>p_filter := Some ''all'', p_sortBy := Some ''sort'',
                          p_ascending := Some True\<rparr>)
            (no_meta\<lparr>m_sort := True\<rparr>) now) \<and>
   routeCommand sv dv now' s
       (Command (Some LIST_TODOS)
            (no_payload\<lparr>p_filter := Some ''all'', p_sortBy := Some ''sort'',
                          p_ascending := Some True\<rparr>)
            (no_meta\<lparr>m_sort := True\<rparr>) now) =
     (s, Inr \<lparr>success = False,
               r_error = Some ''Sort by must be one of: id, title, createdAt, updatedAt, completed'',
               r_command = Some LIST_TODOS, r_result = None\<rparr>)"
proof (rule conjI)
  show "parseCommand now ''sort title desc'' =
     Inr (Command (Some LIST_TODOS)
            (no_payload\<lparr>p_filter := Some ''all'', p_sortBy := Some ''sort'',
                          p_ascending := Some True\<rparr>)
            (no_meta\<lparr>m_sort := True\<rparr>) now)"
    by code_simp
next
  show "routeCommand sv dv now' s
       (Command (Some LIST_TODOS)
            (no_payload\<lparr>p_filter := Some ''all'', p_sortBy := Some ''sort'',
                          p_ascending := Some True\<rparr>)
            (no_meta\<lparr>m_sort := True\<rparr>) now) =
     (s, Inr \<lparr>success = False,
               r_error = Some ''Sort by must be one of: id, title, createdAt, updatedAt, completed'',
               r_command = Some LIST_TODOS, r_result = None\<rparr>)"
    by (simp add: routeCommand_def handle_def handleListTodos_def Command_def no_payload_def
        no_meta_def sortTodos_def SORT_KEYS_def error_message_def)
qed

text \<open>
  C3.  The claim: for each view word w of all, active and completed, dispatching the
  command parsed from \<open>filter w\<close> succeeds and makes w the current view; and setting a
  view outside that set fails.

  The program does the second part (\<open>setCurrentView_fails_iff\<close>) and not the first.
  The command made from the match takes the command word for the view, so each of the
  three inputs is parsed as a Filter command with the view \<open>filter\<close>; the dispatch
  rejects that view, reports failure and leaves the state as it is.
\<close>

theorem C3_filter_takes_the_command_word:
  "parseCommand now ''filter all'' =
     Inr (Command (Some FILTER_TODOS) (no_payload\<lparr>p_filter := Some ''filter''\<rparr>) no_meta now) \<and>
   parseCommand now ''filter active'' =
     Inr (Command (Some FILTER_TODOS) (no_payload\<lparr>p_filter := Some ''filter''\<rparr>) no_meta now) \<and>
   parseCommand now ''filter completed'' =
     Inr (Command (Some FILTER_TODOS) (no_payload\<lparr>p_filter := Some ''filter''\<rparr>) no_meta now) \<and>
   routeCommand sv dv now' s
       (Command (Some FILTER_TODOS) (no_payload\<lparr>p_filter := Some ''filter''\<rparr>) no_meta now) =
     (s, Inr \<lparr>success = False,
               r_error = Some (''Invalid view: filter. Must be 'all', 'active', or 'completed''
                               @ [CHR 0x27]),
               r_command = Some FILTER_TODOS, r_result = None\<rparr>)"
proof (intro conjI)
  show "parseCommand now ''filter all'' =
     Inr (Command (Some FILTER_TODOS) (no_payload\<lparr>p_filter := Some ''filter''\<rparr>) no_meta now)"
    by code_simp
next
  show "parseCommand now ''filter active'' =
     Inr (Command (Some FILTER_TODOS) (no_payload\<lparr>p_filter := Some ''filter''\<rparr>) no_meta now)"
    by code_simp
next
  show "parseCommand now ''filter completed'' =
     Inr (Command (Some FILTER_TODOS) (no_payload\<lparr>p_filter := Some ''filter''\<rparr>) no_meta now)"
    by code_simp
next
  show "routeCommand sv dv now' s
       (Command (Some FILTER_TODOS) (no_payload\<lparr>p_filter := Some ''filter''\<rparr>) no_meta now) =
     (s, Inr \<lparr>success = False,
               r_error = Some (''Invalid view: filter. Must be 'all', 'active', or 'completed''
                               @ [CHR 0x27]),
               r_command = Some FILTER_TODOS, r_result = None\<rparr>)"
    by (simp add: routeCommand_def handle_def handleFilterTodos_def Command_def no_payload_def
        no_meta_def setCurrentView_def VIEWS_def error_message_def)
qed

text \<open>
  C4.  For every sequence of Add operations applied to an empty container with
  \<open>nextId = 1\<close>, whatever their titles and times and whether they succeed or fail, no
  two items of the resulting container share an id, and \<open>nextId\<close> is one more than the
  greatest id present, or 1 when there is none.  Every prefix of a sequence is a
  sequence, so this holds after each Add.
\<close>

theorem C4_ids_unique_and_nextId_max:
  "ids_ok (run_adds (AppState [] 1 v) ops)"
  by (rule ids_ok_run) (simp add: ids_ok_def AppState_def)

theorem C4_witness:
  "ids_ok (run_adds (AppState [] 1 ''all'')
      [(''t1'', Some ''a''), (''t2'', Some '' ''), (''t3'', Some ''b'')]) \<and>
   map todo_id (todos (run_adds (AppState [] 1 ''all'')
      [(''t1'', Some ''a''), (''t2'', Some '' ''), (''t3'', Some ''b'')])) = [1, 2] \<and>
   nextId (run_adds (AppState [] 1 ''all'')
      [(''t1'', Some ''a''), (''t2'', Some '' ''), (''t3'', Some ''b'')]) = 3"
  using C4_ids_unique_and_nextId_max
    [of "''all''" "[(''t1'', Some ''a''), (''t2'', Some '' ''), (''t3'', Some ''b'')]"]
  by (simp add: addTodo_def validateTodoInput_def trim_def is_space_def AppState_def
      AppState_addTodo_def Let_def)

text \<open>
  C5.  The claim: \<open>removeTodo\<close> removes only the first item whose id matches and leaves
  later items with that id in place.  It fails on a container with two items of id 1:
  both are removed.
\<close>

theorem C5_counterexample:
  "todos (fst (removeTodo
      (AppState [Todo ''t0'' 1 ''a'' False None None, Todo ''t0'' 2 ''b'' False None None,
                 Todo ''t0'' 1 ''c'' False None None] 3 ''all'') 1))
   \<noteq> remove_first 1
      [Todo ''t0'' 1 ''a'' False None None, Todo ''t0'' 2 ''b'' False None None,
       Todo ''t0'' 1 ''c'' False None None]"
  by (simp add: removeTodo_def AppState_def Todo_def)

text \<open>
  C5, amended.  For every container and every id, \<open>removeTodo\<close> removes every item whose
  id matches: no item with that id is left, the items with other ids stay as they are
  and in their order, \<open>nextId\<close> and the view are unchanged, and the result is true
  exactly when at least one item matched.  When the ids of the container are unique this
  is the removal of the first match.
\<close>

theorem C5_removes_every_match:
  "(\<forall>t\<in>set (todos (fst (removeTodo s i))). todo_id t \<noteq> i) \<and>
   filter (\<lambda>t. todo_id t \<noteq> i) (todos (fst (removeTodo s i))) =
     filter (\<lambda>t. todo_id t \<noteq> i) (todos s) \<and>
   nextId (fst (removeTodo s i)) = nextId s \<and>
   currentView (fst (removeTodo s i)) = currentView s \<and>
   snd (removeTodo s i) = (i \<in> set (map todo_id (todos s))) \<and>
   (distinct (map todo_id (todos s)) \<longrightarrow>
      todos (fst (removeTodo s i)) = remove_first i (todos s))"
  by (simp add: removeTodo_def Let_def remove_first_distinct removeTodo_reports)

theorem C5_witness:
  "distinct (map todo_id (todos
      (AppState [Todo ''t0'' 1 ''a'' False None None, Todo ''t0'' 2 ''b'' False None None,
                 Todo ''t0'' 3 ''c'' False None None] 4 ''all''))) \<and>
   todos (fst (removeTodo
      (AppState [Todo ''t0'' 1 ''a'' False None None, Todo ''t0'' 2 ''b'' False None None,
                 Todo ''t0'' 3 ''c'' False None None] 4 ''all'') 2))
     = [Todo ''t0'' 1 ''a'' False None None, Todo ''t0'' 3 ''c'' False None None] \<and>
   snd (removeTodo
      (AppState [Todo ''t0'' 1 ''a'' False None None, Todo ''t0'' 2 ''b'' False None None,
                 Todo ''t0'' 3 ''c'' False None None] 4 ''all'') 2)"
  using C5_removes_every_match
    [of "AppState [Todo ''t0'' 1 ''a'' False None None, Todo ''t0'' 2 ''b'' False None None,
                   Todo ''t0'' 3 ''c'' False None None] 4 ''all''" 2]
  by (simp add: AppState_def Todo_def)

text \<open>
  C6.  The claim: if the save function throws on every call, dispatching a mutating
  command, such as an Add with a valid title, still returns a result with
  \<open>success = True\<close> that reports the save as unsuccessful, and the container keeps
  the change.

  The program does so when the value thrown is an object or another value that has
  properties (\<open>route_throws_other\<close>, \<open>add_without_save\<close>), and the container keeps the
  change whatever the save function does (\<open>route_state\<close>).  It does otherwise when the
  value thrown is \<open>undefined\<close> (or \<open>null\<close>): the handler of the save error reads the
  message of the value thrown, this read throws, and the dispatch of the Add returns a
  result with \<open>success = False\<close> and the message of that error, while the new item is
  in the container.
\<close>

theorem C6_save_throwing_undefined_fails_the_command:
  "routeCommand (Some (\<lambda>st. Throws ThrownUndefined)) dv now s
       (Command (Some ADD_TODO) (no_payload\<lparr>p_title := Some ''Buy milk''\<rparr>) no_meta ts) =
     (s\<lparr>todos := todos s @ [Todo now (nextId s) ''Buy milk'' False None None],
         nextId := nextId s + 1\<rparr>,
      Inr \<lparr>success = False,
            r_error = Some ''Cannot read properties of undefined (reading 'message')'',
            r_command = Some ADD_TODO, r_result = None\<rparr>) \<and>
   routeCommand (Some (\<lambda>st. Throws ThrownNull)) dv now s
       (Command (Some ADD_TODO) (no_payload\<lparr>p_title := Some ''Buy milk''\<rparr>) no_meta ts) =
     (s\<lparr>todos := todos s @ [Todo now (nextId s) ''Buy milk'' False None None],
         nextId := nextId s + 1\<rparr>,
      Inr \<lparr>success = False,
            r_error = Some ''Cannot read properties of null (reading 'message')'',
            r_command = Some ADD_TODO, r_result = None\<rparr>)"
proof -
  have v: "validateTodoInput (Some ''Buy milk'') = []"
    by (simp add: validateTodoInput_def trim_def is_space_def)
  have t: "trim ''Buy milk'' = ''Buy milk''"
    by (simp add: trim_def is_space_def)
  show ?thesis
    by (simp add: routeCommand_def handle_def Command_def no_payload_def wrap_def
        addTodoWithPersistence_def Let_def try_save_def v t AppState_addTodo_def
        error_message_def)
qed

text \<open>
  C7.  For every container that satisfies the invariants of the data model (every
  title non-empty and trimmed, \<open>nextId\<close> at least 1, the view one of all, active and
  completed), \<open>fromObject\<close> of its \<open>toJSON\<close> succeeds with a container that has the
  same sequence of items as to id, title and completed, the same \<open>nextId\<close> and the
  same view; and so has the container that \<open>loadTodosAsInstances\<close> builds from the
  data that \<open>saveTodosToFile\<close> writes.
\<close>

theorem C7_round_trip:
  assumes "state_invariants s"
  shows "(\<exists>s'. AppState_fromObject now (AppState_toJSON s) = Inr s' \<and>
            map essence (todos s') = map essence (todos s) \<and>
            nextId s' = nextId s \<and> currentView s' = currentView s) \<and>
         map essence (todos (loadTodosAsInstances now now_ms (saved_data s)))
           = map essence (todos s) \<and>
         nextId (loadTodosAsInstances now now_ms (saved_data s)) = nextId s \<and>
         currentView (loadTodosAsInstances now now_ms (saved_data s)) = currentView s"
proof -
  from assms have tr: "\<forall>t\<in>set (todos s). trim (title t) = title t"
    and n: "1 \<le> nextId s" and v: "currentView s \<in> set VIEWS"
    by (simp_all add: state_invariants_def)
  from v have ve: "currentView s \<noteq> []" by (auto simp: VIEWS_def)
  from n have n0: "nextId s \<noteq> 0" "\<not> nextId s < 1" by simp_all
  let ?ts = "map (\<lambda>t. Todo now (todo_id t) (title t) (completed t)
                      (Some (createdAt t)) (Some (updatedAt t))) (todos s)"
  have 1: "AppState_fromObject now (AppState_toJSON s)
             = Inr (AppState ?ts (nextId s) (currentView s))"
    using n0 ve by (simp add: AppState_fromObject_def AppState_toJSON_def map_fromObject_toJSON)
  have 2: "loadTodosAsInstances now now_ms (saved_data s)
             = AppState ?ts (nextId s) (currentView s)"
    using n0 ve v
    by (simp add: loadTodosAsInstances_def saved_data_def ensureDataCompatibility_def Let_def
        recover_toJSON comp_def)
  have 3: "map essence ?ts = map essence (todos s)" using tr by (rule essence_map)
  show ?thesis unfolding 1 2 using 3 by (simp add: AppState_def)
qed

theorem C7_witness:
  "state_invariants
      (AppState [\<lparr>todo_id = 1, title = ''Buy milk'', completed = True,
                   createdAt = ''t0'', updatedAt = ''t1''\<rparr>] 2 ''active'') \<and>
   AppState_fromObject ''t2''
      (AppState_toJSON
         (AppState [\<lparr>todo_id = 1, title = ''Buy milk'', completed = True,
                      createdAt = ''t0'', updatedAt = ''t1''\<rparr>] 2 ''active''))
     = Inr (AppState [\<lparr>todo_id = 1, title = ''Buy milk'', completed = True,
                        createdAt = ''t0'', updatedAt = ''t1''\<rparr>] 2 ''active'')"
proof -
  have h: "state_invariants
      (AppState [\<lparr>todo_id = 1, title = ''Buy milk'', completed = True,
                   createdAt = ''t0'', updatedAt = ''t1''\<rparr>] 2 ''active'')"
    by (simp add: state_invariants_def AppState_def trim_def is_space_def VIEWS_def)
  show ?thesis
    using h C7_round_trip [OF h, of "''t2''" 0]
    by (simp add: AppState_fromObject_def AppState_toJSON_def Todo_fromObject_def
        Todo_toJSON_def Todo_def or_now_def AppState_def trim_def is_space_def)
qed

text \<open>
  C8.  The claim: Add accepts every title whose trimmed form is non-empty and at most
  255 characters long.  It fails for the letter a followed by 255 spaces: the trimmed
  form is one character long, and the title is rejected as too long.
\<close>

theorem C8_counterexample:
  "trim (CHR ''a'' # replicate 255 (CHR '' '')) \<noteq> [] \<and>
   length (trim (CHR ''a'' # replicate 255 (CHR '' ''))) \<le> 255 \<and>
   addTodo ''t1'' (AppState [] 1 ''all'') (Some (CHR ''a'' # replicate 255 (CHR '' '')))
     = (AppState [] 1 ''all'', Inl (Error ''Todo title is too long (max 255 characters)''))"
  by (simp add: trim_padded addTodo_def validateTodoInput_def)

text \<open>
  C8, amended.  Add fails, leaving the container as it is, exactly when the title is
  empty or white space only after trimming, or the title as given, before trimming, has
  more than 255 characters; for every other title it succeeds, and the item created
  has the next id, is incomplete and stores the trimmed title.
\<close>

theorem C8_add_validates_the_given_title:
  "(isl (snd (addTodo now s (Some t))) \<longleftrightarrow> trim t = [] \<or> 255 < length t) \<and>
   (isl (snd (addTodo now s (Some t))) \<longrightarrow> fst (addTodo now s (Some t)) = s) \<and>
   (\<not> (trim t = [] \<or> 255 < length t) \<longrightarrow>
      (\<exists>r. addTodo now s (Some t)
              = (s\<lparr>todos := todos s @ [res_todo r], nextId := nextId s + 1\<rparr>, Inr r) \<and>
           todo_id (res_todo r) = nextId s \<and> title (res_todo r) = trim t \<and>
           \<not> completed (res_todo r)))"
  by (simp add: addTodo_def validateTodoInput_def Let_def AppState_addTodo_def Todo_def trim_idem)

theorem C8_witness:
  "\<not> (trim ''  Buy milk '' = [] \<or> 255 < length ''  Buy milk '') \<and>
   map title (todos (fst (addTodo ''t1'' (AppState [] 1 ''all'') (Some ''  Buy milk ''))))
     = [''Buy milk''] \<and>
   isl (snd (addTodo ''t1'' (AppState [] 1 ''all'') (Some ''   ''))) \<and>
   fst (addTodo ''t1'' (AppState [] 1 ''all'') (Some ''   '')) = AppState [] 1 ''all''"
proof -
  have t: "trim ''  Buy milk '' = ''Buy milk''" by (simp add: trim_def is_space_def)
  have e: "trim ''   '' = []" by (simp add: trim_def is_space_def)
  show ?thesis
    using C8_add_validates_the_given_title [of "''t1''" "AppState [] 1 ''all''" "''  Buy milk ''"]
      C8_add_validates_the_given_title [of "''t1''" "AppState [] 1 ''all''" "''   ''"]
    by (auto simp: t e AppState_def)
qed

text \<open>
  C9.  Removing one pair of surrounding quotes is idempotent on every string that
  contains no embedded pair of quotes:
  \<open>stripQuotes (stripQuotes s) = stripQuotes s\<close>.
\<close>

theorem C9_stripQuotes_idempotent:
  assumes "\<not> embedded_quote_pairs s"
  shows "stripQuotes (stripQuotes s) = stripQuotes s"
proof (cases s)
  case Nil
  then show ?thesis by (simp add: stripQuotes_eq)
next
  case (Cons c r)
  show ?thesis
  proof (cases "c = CHR 0x22 \<and> r \<noteq> [] \<and> last r = CHR 0x22 \<and> (\<forall>c\<in>set (butlast r). dot c)")
    case True
    then have 1: "stripQuotes s = butlast r" using Cons by (simp add: stripQuotes_eq)
    have "length (filter (\<lambda>c. c = CHR 0x22) (butlast r)) < 2"
      using assms Cons by (simp add: embedded_quote_pairs_def)
    then show ?thesis unfolding 1 by (rule not_strippable)
  next
    case False
    then have "stripQuotes s = s" using Cons by (auto simp: stripQuotes_eq)
    then show ?thesis by simp
  qed
qed

theorem C9_witness:
  "\<not> embedded_quote_pairs (quoted ''Buy milk'') \<and>
   stripQuotes (quoted ''Buy milk'') = ''Buy milk'' \<and>
   stripQuotes (stripQuotes (quoted ''Buy milk'')) = ''Buy milk''"
proof -
  have h: "\<not> embedded_quote_pairs (quoted ''Buy milk'')"
    by (simp add: embedded_quote_pairs_def quoted_def)
  have v: "stripQuotes (quoted ''Buy milk'') = ''Buy milk''"
    by (simp add: stripQuotes_eq quoted_def dot_def is_line_terminator_def)
  show ?thesis using h v C9_stripQuotes_idempotent [OF h] by simp
qed

text \<open>
  C10.  For every container with unique ids and every id i present in it, completing,
  uncompleting and toggling the item i, and editing it with a valid new title, change
  the item with id i only: the ids are the same in the same order, every item with
  another id is the same in all its fields, and \<open>nextId\<close> and the view are unchanged.
\<close>

theorem C10_only_the_item_changes:
  assumes "distinct (map todo_id (todos s))"
    and "i \<in> set (map todo_id (todos s))"
    and "validateTodoInput (Some newTitle) = []"
  shows "only_changes i s (fst (completeTodo now s (Some i))) \<and>
         only_changes i s (fst (incompleteTodo now s (Some i))) \<and>
         only_changes i s (fst (toggleTodo now s (Some i))) \<and>
         only_changes i s (fst (editTodo now s (Some i) (Some newTitle)))"
  by (intro conjI completeTodo_frame incompleteTodo_frame toggleTodo_frame editTodo_frame)

theorem C10_witness:
  "distinct (map todo_id (todos
      (AppState [Todo ''t0'' 1 ''a'' False None None, Todo ''t0'' 2 ''b'' False None None,
                 Todo ''t0'' 3 ''c'' True None None] 4 ''all''))) \<and>
   2 \<in> set (map todo_id (todos
      (AppState [Todo ''t0'' 1 ''a'' False None None, Todo ''t0'' 2 ''b'' False None None,
                 Todo ''t0'' 3 ''c'' True None None] 4 ''all''))) \<and>
   validateTodoInput (Some ''d'') = [] \<and>
   fst (completeTodo ''t1''
      (AppState [Todo ''t0'' 1 ''a'' False None None, Todo ''t0'' 2 ''b'' False None None,
                 Todo ''t0'' 3 ''c'' True None None] 4 ''all'') (Some 2))
     = AppState [Todo ''t0'' 1 ''a'' False None None, Todo ''t0'' 2 ''b'' True None (Some ''t1''),
                 Todo ''t0'' 3 ''c'' True None None] 4 ''all'' \<and>
   fst (editTodo ''t1''
      (AppState [Todo ''t0'' 1 ''a'' False None None, Todo ''t0'' 2 ''b'' False None None,
                 Todo ''t0'' 3 ''c'' True None None] 4 ''all'') (Some 2) (Some ''d''))
     = AppState [Todo ''t0'' 1 ''a'' False None None, Todo ''t0'' 2 ''d'' False None (Some ''t1''),
                 Todo ''t0'' 3 ''c'' True None None] 4 ''all''"
proof -
  have h1: "distinct (map todo_id (todos
      (AppState [Todo ''t0'' 1 ''a'' False None None, Todo ''t0'' 2 ''b'' False None None,
                 Todo ''t0'' 3 ''c'' True None None] 4 ''all'')))"
    by (simp add: AppState_def)
  have h2: "2 \<in> set (map todo_id (todos
      (AppState [Todo ''t0'' 1 ''a'' False None None, Todo ''t0'' 2 ''b'' False None None,
                 Todo ''t0'' 3 ''c'' True None None] 4 ''all'')))"
    by (simp add: AppState_def)
  have h3: "validateTodoInput (Some ''d'') = []"
    by (simp add: validateTodoInput_def trim_def is_space_def)
  show ?thesis
    using h1 h2 h3 C10_only_the_item_changes [OF h1 h2 h3, of "''t1''"]
    by (simp add: completeTodo_def editTodo_def validateTodoId_def validateTodoInput_def
        AppState_def Todo_def or_now_def complete_def updateTitle_def updateTodo_def Let_def
        trim_def is_space_def)
qed

end
